theory Spec2Isabelle
  imports Main "HOL-Library.Word"
begin

unbundle bit_operations_syntax

section \<open>The adbconnection plugin: data model\<close>

text \<open>
  A shallow embedding of \<^verbatim>\<open>adbconnection/adbconnection.cc\<close>. The worker thread
  that runs \<^verbatim>\<open>RunPollLoop\<close> is the only writer of the connection state, so the state
  is a record that every operation takes and returns. Everything the code does to the
  outside (system calls, callbacks into the runtime) is appended to the field
  \<open>trace\<close>, oldest effect first; everything the outside decides (return values of
  system calls, what the peer has queued on the socket, what the callbacks answer) comes
  in through a record \<open>env\<close>, one per pass of the loop.

  \<^verbatim>\<open>DCHECK\<close>s are assertions of debug builds only and are left out; \<^verbatim>\<open>CHECK\<close>s abort the
  process and are a result of their own.
\<close>

type_synonym u8 = "8 word"
type_synonym u16 = "16 word"
type_synonym u32 = "32 word"

text \<open>
  \<^verbatim>\<open>enum class DdmPacketType\<close> is declared in \<^verbatim>\<open>adbconnection.h\<close>; this file only
  casts its variants to a byte, so the byte each variant is cast to is a parameter
  (field \<open>packet_type_byte\<close> of \<open>env\<close>).
\<close>

datatype DdmPacketType = kCmd | kReply

text \<open>
  The message constants of \<^verbatim>\<open>dt_fd_forward\<close> are declared in \<^verbatim>\<open>fd_transport.h\<close>; this
  file only sends them and compares against them. The two messages sent to the transport
  are kept symbolic; a message received from the transport is given by the constant its
  buffer compares equal to (\<^verbatim>\<open>memcmp\<close> over the constant's size, terminator included, so
  at most one matches).
\<close>

datatype to_transport = kPerformHandshakeMessage | kSkipHandshakeMessage

datatype from_transport =
    kListenStartMessage
  | kListenEndMessage
  | kHandshakeCompleteMessage
  | kCloseMessage
  | kAcceptMessage
  | UnknownMessage

datatype effect =
    WriteGuardLock                  \<comment> \<open>\<^verbatim>\<open>ScopedEventFdLock\<close> constructor on \<^verbatim>\<open>adb_write_event_fd_\<close>\<close>
  | WriteGuardUnlock                \<comment> \<open>its destructor\<close>
  | SocketReset int                 \<comment> \<open>\<^verbatim>\<open>adb_connection_socket_.reset()\<close>, with the old descriptor\<close>
  | DropFd int                      \<comment> \<open>a received descriptor that is closed unused\<close>
  | DdmConnected                    \<comment> \<open>\<^verbatim>\<open>art::Dbg::DdmConnected()\<close>\<close>
  | DdmDisconnected                 \<comment> \<open>\<^verbatim>\<open>art::Dbg::DdmDisconnected()\<close>\<close>
  | DdmHandleChunk u32 "u8 list"    \<comment> \<open>\<^verbatim>\<open>art::Dbg::DdmHandleChunk\<close> called with type and payload\<close>
  | SockRecv "u8 list"              \<comment> \<open>bytes taken off the debug socket (not by a peek)\<close>
  | SockSend "u8 list"              \<comment> \<open>bytes passed to \<^verbatim>\<open>send\<close>/\<^verbatim>\<open>writev\<close> on the debug socket\<close>
  | AgentSendmsg to_transport int   \<comment> \<open>\<^verbatim>\<open>sendmsg\<close> of the three descriptors, with its return value\<close>
  | AttachAgent                     \<comment> \<open>\<^verbatim>\<open>runtime->AttachAgent\<close>\<close>
  | Usleep int                      \<comment> \<open>\<^verbatim>\<open>usleep\<close>, in microseconds\<close>

record State =
  control_ctx :: bool               \<comment> \<open>whether \<^verbatim>\<open>control_ctx_\<close> is non-null\<close>
  local_agent_control_sock :: int
  adb_connection_socket :: int
  shutting_down :: bool
  agent_loaded :: bool
  agent_listening :: bool
  agent_has_socket :: bool
  sent_agent_fds :: bool
  performed_handshake :: bool
  notified_ddm_active :: bool
  next_ddm_id :: u32
  trace :: "effect list"

record env =
  stop_requested :: bool            \<comment> \<open>\<^verbatim>\<open>StopDebuggerThreads\<close> ran on another thread before this pass\<close>
  setup_obs :: "(bool \<times> bool) list"
    \<comment> \<open>for each turn of the loop in \<^verbatim>\<open>SetupAdbConnection\<close>: whether the stop happened
        before its test, and whether \<^verbatim>\<open>adbconnection_client_new\<close> returned a session\<close>
  poll_res :: int                   \<comment> \<open>return value of \<^verbatim>\<open>poll\<close>\<close>
  agent_control_events :: u16       \<comment> \<open>events pending on the agent control socket\<close>
  control_events :: u16             \<comment> \<open>events pending on the daemon session's descriptor\<close>
  adb_events :: u16                 \<comment> \<open>events pending on the debug socket\<close>
  client_pollfd :: int              \<comment> \<open>\<^verbatim>\<open>adbconnection_client_pollfd\<close>\<close>
  IsDebuggingPossible :: bool       \<comment> \<open>\<^verbatim>\<open>art::Dbg::IsJdwpAllowed()\<close>\<close>
  agent_recv_res :: int             \<comment> \<open>return value of \<^verbatim>\<open>recv\<close> on the agent control socket\<close>
  agent_msg :: from_transport       \<comment> \<open>which constant the received buffer matches\<close>
  receive_jdwp_fd :: int            \<comment> \<open>\<^verbatim>\<open>adbconnection_client_receive_jdwp_fd\<close>\<close>
  dup_ok :: bool                    \<comment> \<open>the three \<^verbatim>\<open>DupCloexec\<close> calls all succeed\<close>
  sendmsg_res :: int                \<comment> \<open>return value of \<^verbatim>\<open>sendmsg\<close>\<close>
  rx :: "u8 list"                   \<comment> \<open>bytes queued, unread, on the debug socket\<close>
  peek_fails :: bool                \<comment> \<open>\<^verbatim>\<open>recv(MSG_PEEK)\<close> returns an error\<close>
  ioctl_fails :: bool               \<comment> \<open>\<^verbatim>\<open>ioctl(FIONREAD)\<close> returns an error\<close>
  recv_fails :: bool                \<comment> \<open>the consuming \<^verbatim>\<open>recv\<close> returns an error\<close>
  send_res :: int                   \<comment> \<open>return value of \<^verbatim>\<open>send\<close> on the debug socket\<close>
  attach_ok :: bool                 \<comment> \<open>no exception is pending after \<^verbatim>\<open>AttachAgent\<close>\<close>
  ddm_handle_chunk :: "u32 \<Rightarrow> u8 list \<Rightarrow> bool \<times> u32 \<times> u8 list"
    \<comment> \<open>\<^verbatim>\<open>art::Dbg::DdmHandleChunk\<close>: handled, reply type, reply payload\<close>
  packet_type_byte :: "DdmPacketType \<Rightarrow> u8"
    \<comment> \<open>\<^verbatim>\<open>static_cast<uint8_t>(packet_type)\<close>\<close>

datatype outcome = Ok State | CheckFailed State

datatype loop_result =
    Running State       \<comment> \<open>the loop goes on (or waits for the next event)\<close>
  | Returned State      \<comment> \<open>\<^verbatim>\<open>RunPollLoop\<close> returned\<close>
  | Aborted State       \<comment> \<open>a \<^verbatim>\<open>CHECK\<close> failed\<close>
  | OutOfBounds State nat
    \<comment> \<open>a store outside \<^verbatim>\<open>buf\<close>, at the given index (undefined behaviour in C++)\<close>

section \<open>Constants\<close>

definition kJdwpHeaderLen :: nat where "kJdwpHeaderLen = 11"
definition kJdwpDdmCmdSet :: u8 where "kJdwpDdmCmdSet = 199"
definition kJdwpDdmCmd :: u8 where "kJdwpDdmCmd = 1"

definition kJdwpHandshake :: "u8 list" where
  "kJdwpHandshake = map (\<lambda>c. of_nat (of_char c)) ''JDWP-Handshake''"

definition kPacketHeaderLen :: nat where "kPacketHeaderLen = 11"
definition kPacketSizeOff :: nat where "kPacketSizeOff = 0"
definition kPacketIdOff :: nat where "kPacketIdOff = 4"
definition kPacketCommandSetOff :: nat where "kPacketCommandSetOff = 9"
definition kPacketCommandOff :: nat where "kPacketCommandOff = 10"

definition kDdmCommandSet :: u8 where "kDdmCommandSet = 199"
definition kDdmChunkCommand :: u8 where "kDdmChunkCommand = 1"

text \<open>\<^verbatim>\<open>kDdmPacketHeaderSize\<close> of \<^verbatim>\<open>SendDdmPacket\<close>: the JDWP header, a type and a length.\<close>

definition kDdmPacketHeaderSize :: nat where
  "kDdmPacketHeaderSize = kJdwpHeaderLen + 4 + 4"

text \<open>The event bits of \<^verbatim>\<open>poll.h\<close> on Linux.\<close>

definition POLLIN :: u16 where "POLLIN = 0x0001"
definition POLLRDHUP :: u16 where "POLLRDHUP = 0x2000"

text \<open>\<^verbatim>\<open>char buf[257]\<close> of \<^verbatim>\<open>RunPollLoop\<close>, and the length asked of \<^verbatim>\<open>recv\<close>.\<close>

definition kBufSize :: nat where "kBufSize = 257"
definition agent_recv_len :: nat where "agent_recv_len = kBufSize - 1"

section \<open>The system calls, as far as the code depends on them\<close>

text \<open>
  \<^verbatim>\<open>recv\<close> on the debug socket: an error, or as many of the queued bytes as were asked
  for. The caller says whether the bytes leave the queue (\<open>SockRecv\<close>) or not (a peek).
\<close>

definition os_recv :: "bool \<Rightarrow> u8 list \<Rightarrow> nat \<Rightarrow> int \<times> u8 list" where
  "os_recv fails q n = (if fails then (- 1, []) else (int (min n (length q)), take n q))"

text \<open>
  \<^verbatim>\<open>ioctl(FIONREAD, &avail)\<close>: on an error \<open>avail\<close> keeps the value it was initialised
  with, otherwise it is the number of queued bytes.
\<close>

definition os_fionread :: "bool \<Rightarrow> u8 list \<Rightarrow> u32 \<Rightarrow> int \<times> u32" where
  "os_fionread fails q avail0 = (if fails then (- 1, avail0) else (0, of_nat (length q)))"

text \<open>\<^verbatim>\<open>poll\<close> ignores an entry whose descriptor is negative: its \<open>revents\<close> is 0.\<close>

definition poll_revents :: "int \<Rightarrow> u16 \<Rightarrow> u16" where
  "poll_revents fd pending = (if fd < 0 then 0 else pending)"

section \<open>The framing codec\<close>

text \<open>\<^verbatim>\<open>htonl\<close> followed by a store: the four bytes of a word, most significant first.\<close>

definition be32 :: "u32 \<Rightarrow> u8 list" where
  "be32 w = [ucast (drop_bit 24 w), ucast (drop_bit 16 w), ucast (drop_bit 8 w), ucast w]"

text \<open>A load followed by \<^verbatim>\<open>ntohl\<close>: the word whose bytes start at offset \<open>off\<close>.\<close>

definition rd32 :: "u8 list \<Rightarrow> nat \<Rightarrow> u32" where
  "rd32 bs off =
     push_bit 24 (ucast (bs ! off)) OR push_bit 16 (ucast (bs ! (off + 1)))
       OR push_bit 8 (ucast (bs ! (off + 2))) OR ucast (bs ! (off + 3))"

text \<open>
  \<^verbatim>\<open>strncmp(a, b, n) == 0\<close>: equal up to \<open>n\<close> characters, or up to a terminator
  that both have at the same place.
\<close>

fun strncmp_eq :: "u8 list \<Rightarrow> u8 list \<Rightarrow> nat \<Rightarrow> bool" where
  "strncmp_eq _ _ 0 = True"
| "strncmp_eq (a # as) (b # bs) (Suc n) = (a = b \<and> (a = 0 \<or> strncmp_eq as bs n))"
| "strncmp_eq _ _ (Suc n) = False"

definition FlagsSet :: "u16 \<Rightarrow> u16 \<Rightarrow> bool" where
  "FlagsSet data flags = (data AND flags = flags)"

section \<open>Operations on the state\<close>

definition emit :: "effect list \<Rightarrow> State \<Rightarrow> State" where
  "emit es s = s\<lparr>trace := trace s @ es\<rparr>"

definition NotifyDdms :: "State \<Rightarrow> bool \<Rightarrow> State" where
  "NotifyDdms s active =
     emit [if active then DdmConnected else DdmDisconnected] (s\<lparr>notified_ddm_active := active\<rparr>)"

definition CloseFds :: "State \<Rightarrow> State" where
  "CloseFds s =
     (let s1 = emit [WriteGuardLock, SocketReset (adb_connection_socket s), WriteGuardUnlock]
                 (s\<lparr>adb_connection_socket := - 1\<rparr>);
          s2 = s1\<lparr>performed_handshake := False\<rparr>
      in if \<not> agent_loaded s2 \<and> notified_ddm_active s2 then NotifyDdms s2 False else s2)"

definition NextDdmId :: "State \<Rightarrow> u32 \<times> State" where
  "NextDdmId s = (next_ddm_id s OR 0x80000000, s\<lparr>next_ddm_id := next_ddm_id s + 1\<rparr>)"

text \<open>
  \<^verbatim>\<open>SendDdmPacket\<close>: the whole body runs under the write guard. The return value of
  \<^verbatim>\<open>writev\<close> only chooses a log line.
\<close>

definition SendDdmPacket :: "State \<Rightarrow> env \<Rightarrow> u32 \<Rightarrow> DdmPacketType \<Rightarrow> u32 \<Rightarrow> u8 list \<Rightarrow> State" where
  "SendDdmPacket s e ident packet_type type data =
     (let s1 = emit [WriteGuardLock] s
      in if adb_connection_socket s1 = - 1 \<or> \<not> performed_handshake s1
         then emit [WriteGuardUnlock] s1
         else
           let pkt = be32 (of_nat (kDdmPacketHeaderSize + length data))
                     @ be32 ident
                     @ [packet_type_byte e packet_type]
                     @ (case packet_type of
                          kCmd \<Rightarrow> [kJdwpDdmCmdSet, kJdwpDdmCmd]
                        | kReply \<Rightarrow> [0, 0])
                     @ be32 type
                     @ be32 (of_nat (length data))
           in emit [SockSend (pkt @ data), WriteGuardUnlock] s1)"

definition PublishDdmData :: "State \<Rightarrow> env \<Rightarrow> u32 \<Rightarrow> u8 list \<Rightarrow> State" where
  "PublishDdmData s e type data =
     (case NextDdmId s of (ident, s1) \<Rightarrow> SendDdmPacket s1 e ident kCmd type data)"

definition SendAgentFds :: "State \<Rightarrow> env \<Rightarrow> bool \<Rightarrow> outcome" where
  "SendAgentFds s e require_handshake =
     (let message = (if require_handshake then kPerformHandshakeMessage
                     else kSkipHandshakeMessage)
      in if \<not> dup_ok e then CheckFailed s
         else
           let res = sendmsg_res e;
               s1 = emit [AgentSendmsg message res] s
           in if res < 0 then Ok s1 else Ok (s1\<lparr>sent_agent_fds := True\<rparr>))"

text \<open>The update of \<^verbatim>\<open>sleep_ms\<close> at the end of a failed turn of \<^verbatim>\<open>SetupAdbConnection\<close>.\<close>

definition next_sleep_ms :: "int \<Rightarrow> int" where
  "next_sleep_ms sleep_ms =
     (let sleep_max_ms = 2 * 1000;
          sleep_ms1 = sleep_ms + drop_bit 1 sleep_ms
      in if sleep_ms1 > sleep_max_ms then sleep_max_ms else sleep_ms1)"

text \<open>
  The loop of \<^verbatim>\<open>SetupAdbConnection\<close> runs for as long as the daemon refuses and nobody
  stops the debugger, so the model is driven by the list of what each turn observes.
  The result is the value returned, or \<open>None\<close> for a loop that has used up the list
  and is still running, together with the state reached.
\<close>

fun SetupAdbConnection_loop :: "State \<Rightarrow> int \<Rightarrow> (bool \<times> bool) list \<Rightarrow> bool option \<times> State" where
  "SetupAdbConnection_loop s sleep_ms [] = (None, s)"
| "SetupAdbConnection_loop s sleep_ms ((stop, connected) # obs) =
     (let s1 = (if stop then s\<lparr>shutting_down := True\<rparr> else s)
      in if shutting_down s1 then (Some False, s1)
         else if connected then (Some True, s1\<lparr>control_ctx := True\<rparr>)
         else SetupAdbConnection_loop (emit [Usleep (sleep_ms * 1000)] s1)
                (next_sleep_ms sleep_ms) obs)"

definition SetupAdbConnection :: "State \<Rightarrow> (bool \<times> bool) list \<Rightarrow> bool option \<times> State" where
  "SetupAdbConnection s obs = SetupAdbConnection_loop s 500 obs"

definition AttachJdwpAgent :: "State \<Rightarrow> env \<Rightarrow> State" where
  "AttachJdwpAgent s e =
     (let s1 = emit [AttachAgent] s
      in if \<not> attach_ok e then s1 else s1\<lparr>agent_loaded := True\<rparr>)"

definition PerformHandshake :: "State \<Rightarrow> env \<Rightarrow> outcome" where
  "PerformHandshake s e =
     (if performed_handshake s then CheckFailed s
      else
        case os_fionread (ioctl_fails e) (rx e) (- 1) of (res, avail) \<Rightarrow>
        if res < 0 \<or> unat avail < length kJdwpHandshake then Ok (CloseFds s)
        else
          case os_recv (recv_fails e) (rx e) (length kJdwpHandshake) of (res, handshake_msg) \<Rightarrow>
          let s1 = (if res < 0 then s else emit [SockRecv handshake_msg] s)
          in if res < int (length kJdwpHandshake)
                \<or> \<not> strncmp_eq handshake_msg kJdwpHandshake (length kJdwpHandshake)
             then Ok (CloseFds s1)
             else
               let s2 = emit [SockSend kJdwpHandshake] s1
               in if send_res e < int (length kJdwpHandshake) then Ok (CloseFds s2)
                  else Ok (s2\<lparr>performed_handshake := True\<rparr>))"

definition HandleDataWithoutAgent :: "State \<Rightarrow> env \<Rightarrow> outcome" where
  "HandleDataWithoutAgent s e =
     (if \<not> IsDebuggingPossible e then CheckFailed s
      else if \<not> performed_handshake s then PerformHandshake s e
      else
        case os_recv (peek_fails e) (rx e) kPacketHeaderLen of (res, packet_header) \<Rightarrow>
        if res \<le> 0 then Ok (CloseFds s)
        else if res < int kPacketHeaderLen then Ok (AttachJdwpAgent s e)
        else
          let full_len = rd32 packet_header kPacketSizeOff;
              pkt_id = rd32 packet_header kPacketIdOff;
              pkt_cmd_set = packet_header ! kPacketCommandSetOff;
              pkt_cmd = packet_header ! kPacketCommandOff
          in if pkt_cmd_set \<noteq> kDdmCommandSet \<or> pkt_cmd \<noteq> kDdmChunkCommand
                \<or> unat full_len < kPacketHeaderLen
             then Ok (AttachJdwpAgent s e)
             else
               case os_fionread (ioctl_fails e) (rx e) (- 1) of (res, avail) \<Rightarrow>
               if res < 0 then Ok (CloseFds s)
               else if avail < full_len then Ok (AttachJdwpAgent s e)
               else
                 case os_recv (recv_fails e) (rx e) (unat full_len) of (res, got) \<Rightarrow>
                 if res < 0 then Ok (CloseFds s)
                 else
                   let full_pkt = got @ replicate (unat full_len - length got) 0;
                       s1 = emit [SockRecv got] s;
                       data_size = unat full_len - kPacketHeaderLen
                   in if data_size < 4 * 2 then Ok s1
                      else
                        let ddm_type = rd32 full_pkt kPacketHeaderLen;
                            ddm_len = rd32 full_pkt (kPacketHeaderLen + 4)
                        in if unat ddm_len > data_size - 2 * 4 then Ok s1
                           else
                             let s2 = (if \<not> notified_ddm_active s1 then NotifyDdms s1 True
                                       else s1);
                                 ddm_data = take (unat ddm_len) (drop (kPacketHeaderLen + 8) full_pkt);
                                 s3 = emit [DdmHandleChunk ddm_type ddm_data] s2
                             in case ddm_handle_chunk e ddm_type ddm_data of
                                  (handled, reply_type, reply) \<Rightarrow>
                                    if \<not> handled then Ok s3
                                    else Ok (SendDdmPacket s3 e pkt_id kReply reply_type reply))"

text \<open>
  One pass through the body of the inner loop of \<^verbatim>\<open>RunPollLoop\<close>: the \<^verbatim>\<open>poll\<close> and
  the dispatch on its result. \<^verbatim>\<open>continue\<close>, \<^verbatim>\<open>break\<close> and falling out of the body
  are all \<open>Running\<close>: what comes next is decided by the loop conditions.
\<close>

definition should_listen_on_connection :: "State \<Rightarrow> bool" where
  "should_listen_on_connection s = (\<not> agent_has_socket s \<and> \<not> sent_agent_fds s)"

text \<open>The \<open>revents\<close> of the entries 1, 2 and 3 of \<^verbatim>\<open>pollfds\<close> after the \<^verbatim>\<open>poll\<close>.\<close>

definition agent_control_sock_poll :: "State \<Rightarrow> env \<Rightarrow> u16" where
  "agent_control_sock_poll s e =
     poll_revents (if agent_loaded s then local_agent_control_sock s else - 1)
       (agent_control_events e)"

definition control_sock_poll :: "State \<Rightarrow> env \<Rightarrow> u16" where
  "control_sock_poll s e =
     poll_revents (if adb_connection_socket s = - 1 then client_pollfd e else - 1)
       (control_events e)"

definition adb_socket_poll :: "State \<Rightarrow> env \<Rightarrow> u16" where
  "adb_socket_poll s e =
     poll_revents (if should_listen_on_connection s then adb_connection_socket s else - 1)
       (adb_events e)"

definition poll_iteration :: "State \<Rightarrow> env \<Rightarrow> loop_result" where
  "poll_iteration s e =
     (if poll_res e < 0 then Returned s
      else if FlagsSet (agent_control_sock_poll s e) POLLIN then
        (if \<not> IsDebuggingPossible e then Aborted s
         else
           let res = agent_recv_res e
           in if res < 0 then Running s
              else if \<not> nat (res + 1) < kBufSize then OutOfBounds s (nat (res + 1))
              else
                (case agent_msg e of
                   kListenStartMessage \<Rightarrow>
                     (let s1 = s\<lparr>agent_listening := True\<rparr>
                      in if adb_connection_socket s1 \<noteq> - 1
                         then (case SendAgentFds s1 e (\<not> performed_handshake s1) of
                                 Ok s2 \<Rightarrow> Running s2
                               | CheckFailed s2 \<Rightarrow> Aborted s2)
                         else Running s1)
                 | kListenEndMessage \<Rightarrow> Running (s\<lparr>agent_listening := False\<rparr>)
                 | kHandshakeCompleteMessage \<Rightarrow>
                     (if agent_has_socket s then Running (s\<lparr>performed_handshake := True\<rparr>)
                      else Running s)
                 | kCloseMessage \<Rightarrow> Running ((CloseFds s)\<lparr>agent_has_socket := False\<rparr>)
                 | kAcceptMessage \<Rightarrow>
                     Running (s\<lparr>agent_has_socket := True, sent_agent_fds := False,
                                performed_handshake := False\<rparr>)
                 | UnknownMessage \<Rightarrow> Running s))
      else if FlagsSet (control_sock_poll s e) POLLIN then
        (if \<not> IsDebuggingPossible e then Running (s\<lparr>control_ctx := False\<rparr>)
         else
           let s1 = emit [WriteGuardLock] s;
               new_fd = receive_jdwp_fd e
           in if new_fd = - 1
              then Running (emit [WriteGuardUnlock] (s1\<lparr>control_ctx := False\<rparr>))
              else if adb_connection_socket s1 \<noteq> - 1
              then Running (emit ((if new_fd \<ge> 0 then [DropFd new_fd] else [])
                                   @ [WriteGuardUnlock]) s1)
              else
                let s2 = emit [WriteGuardUnlock] (s1\<lparr>adb_connection_socket := new_fd\<rparr>)
                in if agent_loaded s2 \<and> agent_listening s2
                   then (case SendAgentFds s2 e True of
                           Ok s3 \<Rightarrow> Running s3
                         | CheckFailed s3 \<Rightarrow> Aborted s3)
                   else Running s2)
      else if FlagsSet (control_sock_poll s e) POLLRDHUP then
        Running (s\<lparr>control_ctx := False\<rparr>)
      else if FlagsSet (adb_socket_poll s e) POLLIN then
        (if \<not> IsDebuggingPossible e then Aborted s
         else if \<not> agent_loaded s
         then (case HandleDataWithoutAgent s e of
                 Ok s1 \<Rightarrow> Running s1
               | CheckFailed s1 \<Rightarrow> Aborted s1)
         else if agent_listening s \<and> \<not> sent_agent_fds s
         then (case SendAgentFds s e True of
                 Ok s1 \<Rightarrow> Running s1
               | CheckFailed s1 \<Rightarrow> Aborted s1)
         else Running s)
      else if FlagsSet (adb_socket_poll s e) POLLRDHUP then
        (if \<not> IsDebuggingPossible e then Aborted s else Running (CloseFds s))
      else Running s)"

text \<open>
  \<^verbatim>\<open>RunPollLoop\<close>, one element of the list per pass. The two nested loops are
  flattened: a pass tests \<^verbatim>\<open>shutting_down_\<close>, then either sets the daemon session up
  (no session) or runs the body of the inner loop. \<^verbatim>\<open>StopDebuggerThreads\<close> runs on
  another thread; \<open>stop_requested\<close> says that it did before this pass.
\<close>

definition StopDebuggerThreads :: "State \<Rightarrow> State" where
  "StopDebuggerThreads s = s\<lparr>shutting_down := True\<rparr>"

fun RunPollLoop :: "State \<Rightarrow> env list \<Rightarrow> loop_result" where
  "RunPollLoop s [] = Running s"
| "RunPollLoop s (e # es) =
     (let s0 = (if stop_requested e then StopDebuggerThreads s else s)
      in if shutting_down s0 then Returned s0
         else if \<not> control_ctx s0
         then (case SetupAdbConnection s0 (setup_obs e) of
                 (None, s1) \<Rightarrow> Running s1
               | (Some ok, s1) \<Rightarrow> if ok then RunPollLoop s1 es else Returned s1)
         else (case poll_iteration s0 e of
                 Running s1 \<Rightarrow> RunPollLoop s1 es
               | r \<Rightarrow> r))"

text \<open>
  The state the constructor builds, after \<^verbatim>\<open>StartDebuggerThreads\<close> has created the
  agent control socket pair (\<open>fd\<close> is its local end).
\<close>

definition initial :: "int \<Rightarrow> State" where
  "initial fd =
     \<lparr>control_ctx = False, local_agent_control_sock = fd, adb_connection_socket = - 1,
      shutting_down = False, agent_loaded = False, agent_listening = False,
      agent_has_socket = False, sent_agent_fds = False, performed_handshake = False,
      notified_ddm_active = False, next_ddm_id = 1, trace = []\<rparr>"

definition state_of :: "loop_result \<Rightarrow> State" where
  "state_of r = (case r of Running s \<Rightarrow> s | Returned s \<Rightarrow> s | Aborted s \<Rightarrow> s
                 | OutOfBounds s i \<Rightarrow> s)"

section \<open>Notions used to state the properties\<close>

text \<open>The state an operation ends in, and the result it gives the poll loop.\<close>

definition outcome_state :: "outcome \<Rightarrow> State" where
  "outcome_state r = (case r of Ok s \<Rightarrow> s | CheckFailed s \<Rightarrow> s)"

definition to_loop :: "outcome \<Rightarrow> loop_result" where
  "to_loop r = (case r of Ok s \<Rightarrow> Running s | CheckFailed s \<Rightarrow> Aborted s)"

text \<open>What an operation appended to the trace, given the state before and after.\<close>

definition new_effects :: "State \<Rightarrow> State \<Rightarrow> effect list" where
  "new_effects s s' = drop (length (trace s)) (trace s')"

text \<open>
  The value of \<^verbatim>\<open>sleep_ms\<close> at the \<open>k\<close>-th failed attempt of \<^verbatim>\<open>SetupAdbConnection\<close>:
  the initial 500, updated \<open>k\<close> times.
\<close>

definition sleep_schedule :: "nat \<Rightarrow> int" where
  "sleep_schedule k = (next_sleep_ms ^^ k) 500"

text \<open>
  The notifications in a trace alternate, given whether the monitor counts as active
  before the trace; and whether it counts as active after it.
\<close>

fun ddm_alternates :: "bool \<Rightarrow> effect list \<Rightarrow> bool" where
  "ddm_alternates active [] = True"
| "ddm_alternates active (DdmConnected # t) = (\<not> active \<and> ddm_alternates True t)"
| "ddm_alternates active (DdmDisconnected # t) = (active \<and> ddm_alternates False t)"
| "ddm_alternates active (_ # t) = ddm_alternates active t"

fun ddm_active_after :: "bool \<Rightarrow> effect list \<Rightarrow> bool" where
  "ddm_active_after active [] = active"
| "ddm_active_after active (DdmConnected # t) = ddm_active_after True t"
| "ddm_active_after active (DdmDisconnected # t) = ddm_active_after False t"
| "ddm_active_after active (_ # t) = ddm_active_after active t"

definition ddm_inv :: "State \<Rightarrow> bool" where
  "ddm_inv s = (ddm_alternates False (trace s)
                \<and> notified_ddm_active s = ddm_active_after False (trace s))"

fun ddm_notifications :: "effect list \<Rightarrow> effect list" where
  "ddm_notifications [] = []"
| "ddm_notifications (DdmConnected # t) = DdmConnected # ddm_notifications t"
| "ddm_notifications (DdmDisconnected # t) = DdmDisconnected # ddm_notifications t"
| "ddm_notifications (_ # t) = ddm_notifications t"

text \<open>
  Where a notification stands among the effects of one pass: \<^verbatim>\<open>DdmConnected\<close> right
  after a packet was taken off the socket and right before the call of
  \<^verbatim>\<open>DdmHandleChunk\<close>; \<^verbatim>\<open>DdmDisconnected\<close> last, right after the socket was reset under
  the write guard. \<open>ddm_placed\<close> says that the notifications of a pass stand there and
  that the state before the pass allows them.
\<close>

definition fired_on_packet :: "effect list \<Rightarrow> bool" where
  "fired_on_packet d =
     (3 \<le> length d
      \<and> (case d ! 0 of SockRecv got \<Rightarrow> True | _ \<Rightarrow> False)
      \<and> d ! 1 = DdmConnected
      \<and> (case d ! 2 of DdmHandleChunk t p \<Rightarrow> True | _ \<Rightarrow> False))"

definition fired_on_close :: "int \<Rightarrow> effect list \<Rightarrow> bool" where
  "fired_on_close fd d =
     (drop (length d - 4) d
        = [WriteGuardLock, SocketReset fd, WriteGuardUnlock, DdmDisconnected])"

definition ddm_placed :: "State \<Rightarrow> State \<Rightarrow> bool" where
  "ddm_placed s s' =
     ((DdmConnected \<in> set (new_effects s s') \<longrightarrow>
         \<not> agent_loaded s \<and> \<not> notified_ddm_active s \<and> performed_handshake s
         \<and> fired_on_packet (new_effects s s'))
      \<and> (DdmDisconnected \<in> set (new_effects s s') \<longrightarrow>
         \<not> agent_loaded s \<and> notified_ddm_active s \<and> adb_connection_socket s' = - 1
         \<and> fired_on_close (adb_connection_socket s) (new_effects s s')))"

text \<open>The messages that went out with descriptors, in order.\<close>

fun sent_tokens :: "effect list \<Rightarrow> to_transport list" where
  "sent_tokens [] = []"
| "sent_tokens (AgentSendmsg m res # t) = m # sent_tokens t"
| "sent_tokens (_ # t) = sent_tokens t"

subsection \<open>A concrete environment\<close>

text \<open>
  An environment in which nothing is pending and every call succeeds; the examples
  below change the fields that matter. The reply variant of the flags byte is 0x80 in it.
\<close>

definition idle :: env where
  "idle = \<lparr>stop_requested = False, setup_obs = [(False, True)], poll_res = 1,
     agent_control_events = 0, control_events = 0, adb_events = 0, client_pollfd = 4,
     IsDebuggingPossible = True, agent_recv_res = 0, agent_msg = UnknownMessage,
     receive_jdwp_fd = - 1, dup_ok = True, sendmsg_res = 15, rx = [], peek_fails = False,
     ioctl_fails = False, recv_fails = False, send_res = 14, attach_ok = True,
     ddm_handle_chunk = (\<lambda>t p. (False, 0, [])),
     packet_type_byte = (\<lambda>t. case t of kCmd \<Rightarrow> 0 | kReply \<Rightarrow> 0x80)\<rparr>"

text \<open>A JDWP command packet of command set 1, command 1, without payload.\<close>

definition version_cmd :: "u8 list" where
  "version_cmd = be32 11 @ be32 1 @ [0, 1, 1]"

text \<open>A DDM chunk packet with id 2, chunk type \<open>HELO\<close> and a payload of four bytes.\<close>

definition helo_chunk :: "u8 list" where
  "helo_chunk = be32 23 @ be32 2 @ [0, 199, 1] @ be32 0x48454C4F @ be32 4 @ [0, 0, 0, 1]"

text \<open>The daemon is connected, a client is accepted as descriptor 7 and shakes hands.\<close>

definition connected_run :: "env list" where
  "connected_run =
     [idle,
      idle\<lparr>control_events := POLLIN, receive_jdwp_fd := 7\<rparr>,
      idle\<lparr>adb_events := POLLIN, rx := kJdwpHandshake\<rparr>]"

text \<open>Then the client sends a command this code does not handle, and the agent is attached.\<close>

definition agent_run :: "env list" where
  "agent_run = connected_run @ [idle\<lparr>adb_events := POLLIN, rx := version_cmd\<rparr>]"

text \<open>The states these two runs end in.\<close>

definition handshaken :: State where
  "handshaken = state_of (RunPollLoop (initial 3) connected_run)"

definition agent_attached :: State where
  "agent_attached = state_of (RunPollLoop (initial 3) agent_run)"

text \<open>A message from the agent arrives on the agent control socket.\<close>

definition from_agent :: "from_transport \<Rightarrow> env" where
  "from_agent m = idle\<lparr>agent_control_events := POLLIN, agent_recv_res := 13, agent_msg := m\<rparr>"

text \<open>
  The agent gets the descriptors on its listen-start and then sends its close message:
  the socket is gone and \<open>sent_agent_fds\<close> is still set.
\<close>

definition stale_handoff :: State where
  "stale_handoff = state_of (RunPollLoop (initial 3)
     (agent_run @ [from_agent kListenStartMessage, from_agent kCloseMessage]))"

text \<open>
  Two DDM packets with a broken inner framing: one whose payload is shorter than the
  type and length words, one whose inner length is larger than what follows.
\<close>

definition short_chunk :: "u8 list" where
  "short_chunk = be32 15 @ be32 2 @ [0, 199, 1] @ [1, 2, 3, 4]"

definition overlong_chunk :: "u8 list" where
  "overlong_chunk = be32 23 @ be32 2 @ [0, 199, 1] @ be32 0x48454C4F @ be32 5 @ [0, 0, 0, 1]"

section \<open>Facts about the model\<close>

lemma emit_emit: "emit ys (emit xs s) = emit (xs @ ys) s"
  by (simp add: emit_def)

lemma emit_Nil: "emit [] s = s"
  by (simp add: emit_def)

lemma emit_fields:
  "control_ctx (emit xs s) = control_ctx s"
  "adb_connection_socket (emit xs s) = adb_connection_socket s"
  "shutting_down (emit xs s) = shutting_down s"
  "agent_loaded (emit xs s) = agent_loaded s"
  "agent_listening (emit xs s) = agent_listening s"
  "agent_has_socket (emit xs s) = agent_has_socket s"
  "sent_agent_fds (emit xs s) = sent_agent_fds s"
  "performed_handshake (emit xs s) = performed_handshake s"
  "notified_ddm_active (emit xs s) = notified_ddm_active s"
  "local_agent_control_sock (emit xs s) = local_agent_control_sock s"
  "next_ddm_id (emit xs s) = next_ddm_id s"
  "trace (emit xs s) = trace s @ xs"
  by (simp_all add: emit_def)

lemma state_of_simps:
  "state_of (Running s) = s" "state_of (Returned s) = s" "state_of (Aborted s) = s"
  "state_of (OutOfBounds s i) = s"
  by (simp_all add: state_of_def)

lemma state_of_outcome:
  "state_of (case r of Ok s2 \<Rightarrow> Running s2 | CheckFailed s2 \<Rightarrow> Aborted s2) = outcome_state r"
  by (cases r) (simp_all add: state_of_def outcome_state_def)

text \<open>Unfolding everything, to run the model on a concrete input.\<close>

lemmas run_defs = idle_def version_cmd_def helo_chunk_def connected_run_def initial_def
  StopDebuggerThreads_def SetupAdbConnection_def poll_iteration_def
  agent_control_sock_poll_def control_sock_poll_def adb_socket_poll_def
  should_listen_on_connection_def poll_revents_def FlagsSet_def POLLIN_def POLLRDHUP_def
  HandleDataWithoutAgent_def PerformHandshake_def AttachJdwpAgent_def SendAgentFds_def
  CloseFds_def NotifyDdms_def SendDdmPacket_def emit_def os_recv_def os_fionread_def
  kJdwpHandshake_def kPacketHeaderLen_def kPacketSizeOff_def kPacketIdOff_def
  kPacketCommandSetOff_def kPacketCommandOff_def kDdmCommandSet_def kDdmChunkCommand_def
  kBufSize_def be32_def rd32_def Let_def kJdwpHeaderLen_def kDdmPacketHeaderSize_def
  kJdwpDdmCmdSet_def kJdwpDdmCmd_def state_of_def outcome_state_def new_effects_def
  next_sleep_ms_def

subsection \<open>The handshake string\<close>

lemma kJdwpHandshake_bytes:
  "kJdwpHandshake =
     [0x4A, 0x44, 0x57, 0x50, 0x2D, 0x48, 0x61, 0x6E, 0x64, 0x73, 0x68, 0x61, 0x6B, 0x65]"
  by (simp add: kJdwpHandshake_def)

lemma length_kJdwpHandshake: "length kJdwpHandshake = 14"
  by (simp add: kJdwpHandshake_def)

lemma strncmp_eq_no_nul:
  "length a = length b \<Longrightarrow> 0 \<notin> set b \<Longrightarrow> strncmp_eq a b (length b) \<longleftrightarrow> a = b"
  by (induction a b rule: list_induct2) auto

lemma strncmp_handshake:
  assumes "length a = 14"
  shows "strncmp_eq a kJdwpHandshake 14 \<longleftrightarrow> a = kJdwpHandshake"
proof -
  have "0 \<notin> set kJdwpHandshake" by (simp add: kJdwpHandshake_bytes)
  then show ?thesis
    using strncmp_eq_no_nul [of a kJdwpHandshake] assms by (simp add: length_kJdwpHandshake)
qed

subsection \<open>Words and bytes\<close>

lemma unat_count: "n < 2 ^ 32 \<Longrightarrow> unat (of_nat n :: u32) = n"
  by (simp add: unat_of_nat)

lemma avail_covers:
  assumes "\<not> (of_nat n :: u32) < w"
  shows "unat w \<le> n"
proof -
  have "unat w \<le> unat (of_nat n :: u32)"
    using assms by (simp add: word_less_nat_alt)
  also have "\<dots> \<le> n" by (simp add: unat_of_nat)
  finally show ?thesis .
qed

lemma word_of_bytes:
  fixes w :: u32
  shows "push_bit 24 (ucast (ucast (drop_bit 24 w) :: u8))
           OR push_bit 16 (ucast (ucast (drop_bit 16 w) :: u8))
           OR push_bit 8 (ucast (ucast (drop_bit 8 w) :: u8))
           OR ucast (ucast w :: u8) = w"
    (is "?lhs = w")
proof (rule bit_word_eqI)
  fix n :: nat
  assume n: "n < LENGTH(32)"
  consider "n < 8" | "8 \<le> n \<and> n < 16" | "16 \<le> n \<and> n < 24" | "24 \<le> n \<and> n < 32"
    using n by fastforce
  then show "bit ?lhs n = bit w n"
    by cases (auto simp add: bit_simps)
qed

lemma rd32_be32: "length pre = off \<Longrightarrow> rd32 (pre @ be32 w @ xs) off = w"
  unfolding rd32_def be32_def
  by (simp add: nth_append word_of_bytes)

lemma rd32_take: "off + 4 \<le> n \<Longrightarrow> rd32 (take n q) off = rd32 q off"
  by (simp add: rd32_def)

lemma length_be32: "length (be32 w) = 4"
  by (simp add: be32_def)

subsection \<open>The retry loop\<close>

lemma setup_loop_failures:
  "\<not> shutting_down s \<Longrightarrow>
   SetupAdbConnection_loop s m (replicate n (False, False) @ rest) =
   SetupAdbConnection_loop (emit (map (\<lambda>k. Usleep ((next_sleep_ms ^^ k) m * 1000)) [0..<n]) s)
     ((next_sleep_ms ^^ n) m) rest"
proof (induction n arbitrary: s m)
  case 0
  then show ?case by (simp add: emit_Nil)
next
  case (Suc n)
  have sd: "\<not> shutting_down (emit [Usleep (m * 1000)] s)"
    using Suc.prems by (simp add: emit_fields)
  have "SetupAdbConnection_loop s m (replicate (Suc n) (False, False) @ rest) =
        SetupAdbConnection_loop (emit [Usleep (m * 1000)] s) (next_sleep_ms m)
          (replicate n (False, False) @ rest)"
    using Suc.prems by simp
  also have "\<dots> = SetupAdbConnection_loop
        (emit (map (\<lambda>k. Usleep ((next_sleep_ms ^^ k) (next_sleep_ms m) * 1000)) [0..<n])
           (emit [Usleep (m * 1000)] s))
        ((next_sleep_ms ^^ n) (next_sleep_ms m)) rest"
    by (rule Suc.IH [OF sd])
  also have "\<dots> = SetupAdbConnection_loop
        (emit (map (\<lambda>k. Usleep ((next_sleep_ms ^^ k) m * 1000)) [0..<Suc n]) s)
        ((next_sleep_ms ^^ Suc n) m) rest"
    by (simp only: emit_emit map_upt_Suc funpow_Suc_right o_apply list.map append.simps funpow_0)
  finally show ?case .
qed

lemma sleep_schedule_cap: "4 \<le> k \<Longrightarrow> sleep_schedule k = 2000"
proof (induction k)
  case 0
  then show ?case by simp
next
  case (Suc k)
  show ?case
  proof (cases "k = 3")
    case True
    then show ?thesis by (simp add: sleep_schedule_def next_sleep_ms_def eval_nat_numeral)
  next
    case False
    with Suc have "sleep_schedule k = 2000" by simp
    then show ?thesis by (simp add: sleep_schedule_def next_sleep_ms_def)
  qed
qed

subsection \<open>Shapes of the results\<close>

lemma HandleData_shape:
  assumes "P (CheckFailed s)" and "P (PerformHandshake s e)" and "P (Ok (CloseFds s))"
    and "P (Ok (AttachJdwpAgent s e))"
    and "\<And>got. P (Ok (emit [SockRecv got] s))"
    and "\<And>got t d. P (Ok (emit [DdmHandleChunk t d]
            (if \<not> notified_ddm_active (emit [SockRecv got] s)
             then NotifyDdms (emit [SockRecv got] s) True else emit [SockRecv got] s)))"
    and "\<And>got t d i rt r. P (Ok (SendDdmPacket (emit [DdmHandleChunk t d]
            (if \<not> notified_ddm_active (emit [SockRecv got] s)
             then NotifyDdms (emit [SockRecv got] s) True else emit [SockRecv got] s))
            e i kReply rt r))"
  shows "P (HandleDataWithoutAgent s e)"
  unfolding HandleDataWithoutAgent_def
  by (simp only: Let_def case_prod_beta assms if_True if_False simp_thms split: if_split)

subsection \<open>The notifications alternate\<close>

lemma ddm_active_after_append:
  "ddm_active_after a (t @ u) = ddm_active_after (ddm_active_after a t) u"
  by (induction a t rule: ddm_active_after.induct) simp_all

lemma ddm_alternates_append:
  "ddm_alternates a (t @ u) = (ddm_alternates a t \<and> ddm_alternates (ddm_active_after a t) u)"
  by (induction a t rule: ddm_alternates.induct) simp_all

lemmas ddm_simps = ddm_inv_def ddm_alternates_append ddm_active_after_append emit_def

lemma ddm_inv_CloseFds: "ddm_inv s \<Longrightarrow> ddm_inv (CloseFds s)"
  by (auto simp add: ddm_simps CloseFds_def NotifyDdms_def Let_def)

lemma ddm_inv_Attach: "ddm_inv s \<Longrightarrow> ddm_inv (AttachJdwpAgent s e)"
  by (simp add: ddm_simps AttachJdwpAgent_def Let_def)

lemma ddm_inv_SendDdmPacket: "ddm_inv s \<Longrightarrow> ddm_inv (SendDdmPacket s e i pt ty d)"
  by (simp add: ddm_simps SendDdmPacket_def Let_def)

lemma ddm_inv_SendAgentFds: "ddm_inv s \<Longrightarrow> ddm_inv (outcome_state (SendAgentFds s e r))"
  by (simp add: ddm_simps SendAgentFds_def Let_def outcome_state_def)

lemma ddm_inv_emit:
  "ddm_inv s \<Longrightarrow> ddm_inv (emit [SockRecv x] s)"
  "ddm_inv s \<Longrightarrow> ddm_inv (emit [SockSend x] s)"
  "ddm_inv s \<Longrightarrow> ddm_inv (emit [DdmHandleChunk t x] s)"
  "ddm_inv s \<Longrightarrow> ddm_inv (emit [WriteGuardLock] s)"
  "ddm_inv s \<Longrightarrow> ddm_inv (emit [WriteGuardUnlock] s)"
  "ddm_inv s \<Longrightarrow> ddm_inv (emit [Usleep n] s)"
  "ddm_inv s \<Longrightarrow> ddm_inv (emit [DropFd n, WriteGuardUnlock] s)"
  by (simp_all add: ddm_simps)

lemma ddm_inv_update:
  "ddm_inv (s\<lparr>performed_handshake := b\<rparr>) = ddm_inv s"
  "ddm_inv (s\<lparr>agent_listening := b\<rparr>) = ddm_inv s"
  "ddm_inv (s\<lparr>agent_has_socket := b\<rparr>) = ddm_inv s"
  "ddm_inv (s\<lparr>sent_agent_fds := b\<rparr>) = ddm_inv s"
  "ddm_inv (s\<lparr>control_ctx := b\<rparr>) = ddm_inv s"
  "ddm_inv (s\<lparr>shutting_down := b\<rparr>) = ddm_inv s"
  "ddm_inv (s\<lparr>adb_connection_socket := fd\<rparr>) = ddm_inv s"
  by (simp_all add: ddm_inv_def)

lemma ddm_inv_Notify: "ddm_inv s \<Longrightarrow> \<not> notified_ddm_active s \<Longrightarrow> ddm_inv (NotifyDdms s True)"
  by (simp add: ddm_simps NotifyDdms_def)

lemma ddm_inv_PerformHandshake: "ddm_inv s \<Longrightarrow> ddm_inv (outcome_state (PerformHandshake s e))"
  unfolding PerformHandshake_def os_fionread_def os_recv_def Let_def
  by (simp add: outcome_state_def ddm_inv_CloseFds ddm_inv_emit ddm_inv_update)

lemma ddm_inv_HandleData:
  "ddm_inv s \<Longrightarrow> ddm_inv (outcome_state (HandleDataWithoutAgent s e))"
proof (rule HandleData_shape)
  assume inv: "ddm_inv s"
  show "ddm_inv (outcome_state (CheckFailed s))"
    using inv by (simp add: outcome_state_def)
  show "ddm_inv (outcome_state (PerformHandshake s e))"
    using inv by (rule ddm_inv_PerformHandshake)
  show "ddm_inv (outcome_state (Ok (CloseFds s)))"
    using inv by (simp add: outcome_state_def ddm_inv_CloseFds)
  show "ddm_inv (outcome_state (Ok (AttachJdwpAgent s e)))"
    using inv by (simp add: outcome_state_def ddm_inv_Attach)
  show "ddm_inv (outcome_state (Ok (emit [SockRecv got] s)))" for got
    using inv by (simp add: outcome_state_def ddm_inv_emit)
  have n: "ddm_inv (emit [DdmHandleChunk t d]
            (if \<not> notified_ddm_active (emit [SockRecv got] s)
             then NotifyDdms (emit [SockRecv got] s) True else emit [SockRecv got] s))" for got t d
    using inv by (simp add: ddm_inv_emit ddm_inv_Notify emit_fields)
  show "ddm_inv (outcome_state (Ok (emit [DdmHandleChunk t d]
            (if \<not> notified_ddm_active (emit [SockRecv got] s)
             then NotifyDdms (emit [SockRecv got] s) True else emit [SockRecv got] s))))" for got t d
    using n by (simp add: outcome_state_def)
  show "ddm_inv (outcome_state (Ok (SendDdmPacket (emit [DdmHandleChunk t d]
            (if \<not> notified_ddm_active (emit [SockRecv got] s)
             then NotifyDdms (emit [SockRecv got] s) True else emit [SockRecv got] s))
            e i kReply rt r)))"
    for got t d i rt r
    using n [of t d got] by (simp add: outcome_state_def ddm_inv_SendDdmPacket)
qed

lemma ddm_inv_poll_iteration: "ddm_inv s \<Longrightarrow> ddm_inv (state_of (poll_iteration s e))"
  unfolding poll_iteration_def Let_def
  by (simp add: state_of_outcome state_of_simps ddm_inv_CloseFds ddm_inv_emit ddm_inv_update
      ddm_inv_SendAgentFds ddm_inv_HandleData emit_fields
      split: from_transport.split)

lemma ddm_inv_setup_loop:
  "ddm_inv s \<Longrightarrow> ddm_inv (snd (SetupAdbConnection_loop s m obs))"
proof (induction obs arbitrary: s m)
  case Nil
  then show ?case by simp
next
  case (Cons ob obs)
  obtain stop connected where ob: "ob = (stop, connected)" by (cases ob)
  show ?case using Cons.prems
    by (simp add: ob Let_def ddm_inv_update Cons.IH ddm_inv_emit)
qed

lemma ddm_inv_RunPollLoop:
  "ddm_inv s \<Longrightarrow> ddm_inv (state_of (RunPollLoop s es))"
proof (induction es arbitrary: s)
  case Nil
  then show ?case by (simp add: state_of_simps)
next
  case (Cons e es)
  define s0 where "s0 = (if stop_requested e then StopDebuggerThreads s else s)"
  have inv0: "ddm_inv s0"
    using Cons.prems by (simp add: s0_def StopDebuggerThreads_def ddm_inv_update)
  show ?case
  proof (cases "shutting_down s0")
    case True
    then show ?thesis using inv0 by (simp add: s0_def [symmetric] state_of_simps)
  next
    case running: False
    show ?thesis
    proof (cases "control_ctx s0")
      case False
      obtain r s1 where su: "SetupAdbConnection s0 (setup_obs e) = (r, s1)"
        by (cases "SetupAdbConnection s0 (setup_obs e)")
      have inv1: "ddm_inv s1"
        using ddm_inv_setup_loop [OF inv0, of 500 "setup_obs e"] su
        by (simp add: SetupAdbConnection_def)
      show ?thesis using running False su inv1 Cons.IH [OF inv1]
        by (simp add: s0_def [symmetric] state_of_simps split: option.split)
    next
      case True
      have inv1: "ddm_inv (state_of (poll_iteration s0 e))"
        by (rule ddm_inv_poll_iteration [OF inv0])
      show ?thesis using running True inv1 Cons.IH [of "state_of (poll_iteration s0 e)"]
        by (cases "poll_iteration s0 e") (simp_all add: s0_def [symmetric] state_of_simps)
    qed
  qed
qed

lemma ddm_inv_initial: "ddm_inv (initial fd)"
  by (simp add: ddm_inv_def initial_def)

subsection \<open>What the operations leave alone\<close>

lemma sent_tokens_append: "sent_tokens (a @ b) = sent_tokens a @ sent_tokens b"
  by (induction a rule: sent_tokens.induct) simp_all

lemma sent_tokens_drop: "sent_tokens d = [] \<Longrightarrow> sent_tokens (drop k d) = []"
proof (induction d arbitrary: k rule: sent_tokens.induct)
  case 1
  then show ?case by simp
next
  case (2 m res t)
  then show ?case by simp
qed (simp_all add: drop_Cons split: nat.split)

lemma tokens_after_append:
  "sent_tokens d = [] \<Longrightarrow> sent_tokens (drop n t @ drop k d) = sent_tokens (drop n t)"
  by (simp add: sent_tokens_append sent_tokens_drop)

lemma tokens_after_emit:
  "sent_tokens xs = [] \<Longrightarrow>
   sent_tokens (drop n (trace (emit xs s))) = sent_tokens (drop n (trace s))"
  by (simp add: emit_def tokens_after_append)

lemma tokens_after_CloseFds:
  "sent_tokens (drop n (trace (CloseFds s))) = sent_tokens (drop n (trace s))"
  by (simp add: CloseFds_def NotifyDdms_def emit_def Let_def tokens_after_append)

lemma tokens_after_Notify:
  "sent_tokens (drop n (trace (NotifyDdms s b))) = sent_tokens (drop n (trace s))"
  by (simp add: NotifyDdms_def emit_def tokens_after_append)

lemma tokens_after_Attach:
  "sent_tokens (drop n (trace (AttachJdwpAgent s e))) = sent_tokens (drop n (trace s))"
  by (simp add: AttachJdwpAgent_def emit_def Let_def tokens_after_append)

lemma tokens_after_SendDdmPacket:
  "sent_tokens (drop n (trace (SendDdmPacket s e i pt ty d))) = sent_tokens (drop n (trace s))"
  by (simp add: SendDdmPacket_def emit_def Let_def tokens_after_append)

lemmas tokens_after = tokens_after_emit tokens_after_CloseFds tokens_after_Notify
  tokens_after_Attach tokens_after_SendDdmPacket

lemma CloseFds_fields:
  "sent_agent_fds (CloseFds s) = sent_agent_fds s"
  "agent_has_socket (CloseFds s) = agent_has_socket s"
  "agent_loaded (CloseFds s) = agent_loaded s"
  "agent_listening (CloseFds s) = agent_listening s"
  "adb_connection_socket (CloseFds s) = - 1"
  "performed_handshake (CloseFds s) = False"
  by (simp_all add: CloseFds_def NotifyDdms_def emit_def Let_def)

lemma Notify_fields:
  "sent_agent_fds (NotifyDdms s b) = sent_agent_fds s"
  "agent_has_socket (NotifyDdms s b) = agent_has_socket s"
  "adb_connection_socket (NotifyDdms s b) = adb_connection_socket s"
  by (simp_all add: NotifyDdms_def emit_def)

lemma Attach_fields:
  "sent_agent_fds (AttachJdwpAgent s e) = sent_agent_fds s"
  "agent_has_socket (AttachJdwpAgent s e) = agent_has_socket s"
  "adb_connection_socket (AttachJdwpAgent s e) = adb_connection_socket s"
  by (simp_all add: AttachJdwpAgent_def emit_def Let_def)

lemma SendDdmPacket_fields:
  "sent_agent_fds (SendDdmPacket s e i pt ty d) = sent_agent_fds s"
  "agent_has_socket (SendDdmPacket s e i pt ty d) = agent_has_socket s"
  "adb_connection_socket (SendDdmPacket s e i pt ty d) = adb_connection_socket s"
  by (simp_all add: SendDdmPacket_def emit_def Let_def)

lemmas frame_fields = CloseFds_fields Notify_fields Attach_fields SendDdmPacket_fields
  emit_fields(1-11)

lemma PerformHandshake_frame:
  "sent_agent_fds (outcome_state (PerformHandshake s e)) = sent_agent_fds s
   \<and> agent_has_socket (outcome_state (PerformHandshake s e)) = agent_has_socket s
   \<and> sent_tokens (drop n (trace (outcome_state (PerformHandshake s e))))
       = sent_tokens (drop n (trace s))"
  unfolding PerformHandshake_def os_fionread_def os_recv_def Let_def
  by (simp add: outcome_state_def frame_fields tokens_after)

lemma HandleData_frame:
  "sent_agent_fds (outcome_state (HandleDataWithoutAgent s e)) = sent_agent_fds s
   \<and> agent_has_socket (outcome_state (HandleDataWithoutAgent s e)) = agent_has_socket s
   \<and> sent_tokens (drop n (trace (outcome_state (HandleDataWithoutAgent s e))))
       = sent_tokens (drop n (trace s))"
  by (rule HandleData_shape)
    (simp_all add: PerformHandshake_frame,
     simp_all add: outcome_state_def frame_fields tokens_after)


lemma FlagsSet_polled: "FlagsSet (poll_revents fd ev) POLLIN \<Longrightarrow> 0 \<le> fd"
  by (simp add: FlagsSet_def poll_revents_def POLLIN_def split: if_splits)

lemma adb_polled:
  assumes "FlagsSet (adb_socket_poll s e) POLLIN"
  shows "adb_connection_socket s \<noteq> - 1"
proof -
  have "0 \<le> (if should_listen_on_connection s then adb_connection_socket s else - 1)"
    using assms unfolding adb_socket_poll_def by (rule FlagsSet_polled)
  then show ?thesis by (simp split: if_splits)
qed

lemma SendAgentFds_fields:
  "agent_has_socket (outcome_state (SendAgentFds s e r)) = agent_has_socket s"
  "adb_connection_socket (outcome_state (SendAgentFds s e r)) = adb_connection_socket s"
  "sent_agent_fds (outcome_state (SendAgentFds s e r)) =
     (sent_agent_fds s \<or> (dup_ok e \<and> 0 \<le> sendmsg_res e))"
  by (auto simp add: SendAgentFds_def outcome_state_def emit_def Let_def)

lemma SendAgentFds_tokens:
  assumes "n \<le> length (trace s)"
  shows "sent_tokens (drop n (trace (outcome_state (SendAgentFds s e r)))) =
     sent_tokens (drop n (trace s))
     @ (if dup_ok e then [if r then kPerformHandshakeMessage else kSkipHandshakeMessage]
        else [])"
  using assms
  by (simp add: SendAgentFds_def outcome_state_def emit_def Let_def sent_tokens_append)

lemma poll_iteration_shape:
  assumes "P (Returned s)" and "P (Aborted s)" and "P (Running s)"
    and "\<And>i. P (OutOfBounds s i)"
    and "\<lbrakk>FlagsSet (agent_control_sock_poll s e) POLLIN; agent_msg e = kListenStartMessage;
          adb_connection_socket s \<noteq> - 1\<rbrakk>
         \<Longrightarrow> P (to_loop (SendAgentFds (s\<lparr>agent_listening := True\<rparr>) e (\<not> performed_handshake s)))"
    and "P (Running (s\<lparr>agent_listening := True\<rparr>))"
    and "P (Running (s\<lparr>agent_listening := False\<rparr>))"
    and "P (Running (s\<lparr>performed_handshake := True\<rparr>))"
    and "P (Running ((CloseFds s)\<lparr>agent_has_socket := False\<rparr>))"
    and "P (Running (s\<lparr>agent_has_socket := True, sent_agent_fds := False,
                       performed_handshake := False\<rparr>))"
    and "P (Running (s\<lparr>control_ctx := False\<rparr>))"
    and "P (Running (emit [WriteGuardUnlock] ((emit [WriteGuardLock] s)\<lparr>control_ctx := False\<rparr>)))"
    and "\<And>xs. sent_tokens xs = [] \<Longrightarrow> P (Running (emit xs (emit [WriteGuardLock] s)))"
    and "\<lbrakk>\<not> FlagsSet (agent_control_sock_poll s e) POLLIN; receive_jdwp_fd e \<noteq> - 1\<rbrakk>
         \<Longrightarrow> P (to_loop (SendAgentFds
                (emit [WriteGuardUnlock]
                   ((emit [WriteGuardLock] s)\<lparr>adb_connection_socket := receive_jdwp_fd e\<rparr>))
                e True))"
    and "receive_jdwp_fd e \<noteq> - 1
         \<Longrightarrow> P (Running (emit [WriteGuardUnlock]
                   ((emit [WriteGuardLock] s)\<lparr>adb_connection_socket := receive_jdwp_fd e\<rparr>)))"
    and "P (to_loop (HandleDataWithoutAgent s e))"
    and "\<lbrakk>\<not> FlagsSet (agent_control_sock_poll s e) POLLIN;
          FlagsSet (adb_socket_poll s e) POLLIN\<rbrakk>
         \<Longrightarrow> P (to_loop (SendAgentFds s e True))"
    and "P (Running (CloseFds s))"
  shows "P (poll_iteration s e)"
  unfolding poll_iteration_def to_loop_def [symmetric]
  by (simp add: Let_def assms emit_fields(1-11) split: from_transport.split)

lemma state_of_to_loop: "state_of (to_loop r) = outcome_state r"
  by (cases r) (simp_all add: to_loop_def state_of_def outcome_state_def)

subsection \<open>The paths through the packet phase\<close>

lemmas hdr_consts = kPacketHeaderLen_def kPacketSizeOff_def kPacketIdOff_def
  kPacketCommandSetOff_def kPacketCommandOff_def kDdmCommandSet_def kDdmChunkCommand_def

lemmas hd_unfold = HandleDataWithoutAgent_def os_recv_def os_fionread_def Let_def
  case_prod_beta hdr_consts rd32_take

lemma HandleData_eof:
  assumes "performed_handshake s" and "IsDebuggingPossible e"
    and "peek_fails e \<or> rx e = []"
  shows "HandleDataWithoutAgent s e = Ok (CloseFds s)"
proof (cases "peek_fails e")
  case True
  then show ?thesis using assms(1,2) by (simp add: hd_unfold)
next
  case False
  then have "rx e = []" using assms(3) by simp
  then show ?thesis using assms(1,2) False by (simp add: hd_unfold)
qed

lemma HandleData_short:
  assumes "performed_handshake s" and "IsDebuggingPossible e"
    and "\<not> peek_fails e" and "rx e \<noteq> []" and "length (rx e) < 11"
  shows "HandleDataWithoutAgent s e = Ok (AttachJdwpAgent s e)"
  using assms by (simp add: hd_unfold)

lemma HandleData_unknown:
  assumes "performed_handshake s" and "IsDebuggingPossible e"
    and "\<not> peek_fails e" and "11 \<le> length (rx e)"
    and "rx e ! 9 \<noteq> 199 \<or> rx e ! 10 \<noteq> 1 \<or> unat (rd32 (rx e) 0) < 11"
  shows "HandleDataWithoutAgent s e = Ok (AttachJdwpAgent s e)"
  using assms by (auto simp add: hd_unfold)

lemma HandleData_ioctl_fails:
  assumes "performed_handshake s" and "IsDebuggingPossible e"
    and "\<not> peek_fails e" and "11 \<le> length (rx e)"
    and "rx e ! 9 = 199" and "rx e ! 10 = 1" and "11 \<le> unat (rd32 (rx e) 0)"
    and "ioctl_fails e"
  shows "HandleDataWithoutAgent s e = Ok (CloseFds s)"
  using assms by (simp add: hd_unfold)

lemma HandleData_partial:
  assumes "performed_handshake s" and "IsDebuggingPossible e"
    and "\<not> peek_fails e" and "11 \<le> length (rx e)"
    and "rx e ! 9 = 199" and "rx e ! 10 = 1" and "11 \<le> unat (rd32 (rx e) 0)"
    and "\<not> ioctl_fails e" and "of_nat (length (rx e)) < rd32 (rx e) 0"
  shows "HandleDataWithoutAgent s e = Ok (AttachJdwpAgent s e)"
  using assms by (simp add: hd_unfold)

lemma HandleData_recv_fails:
  assumes "performed_handshake s" and "IsDebuggingPossible e"
    and "\<not> peek_fails e" and "11 \<le> length (rx e)"
    and "rx e ! 9 = 199" and "rx e ! 10 = 1" and "11 \<le> unat (rd32 (rx e) 0)"
    and "\<not> ioctl_fails e" and "\<not> of_nat (length (rx e)) < rd32 (rx e) 0"
    and "recv_fails e"
  shows "HandleDataWithoutAgent s e = Ok (CloseFds s)"
  using assms by (simp add: hd_unfold)

lemma HandleData_malformed:
  assumes "performed_handshake s" and "IsDebuggingPossible e"
    and "\<not> peek_fails e" and "11 \<le> length (rx e)"
    and "rx e ! 9 = 199" and "rx e ! 10 = 1" and "11 \<le> unat (rd32 (rx e) 0)"
    and "\<not> ioctl_fails e" and "\<not> of_nat (length (rx e)) < rd32 (rx e) 0"
    and "\<not> recv_fails e"
    and "unat (rd32 (rx e) 0) - 11 < 8
         \<or> unat (rd32 (rx e) 0) - 19 < unat (rd32 (rx e) 15)"
  shows "HandleDataWithoutAgent s e = Ok (emit [SockRecv (take (unat (rd32 (rx e) 0)) (rx e))] s)"
proof -
  have le: "unat (rd32 (rx e) 0) \<le> length (rx e)"
    using assms(9) by (rule avail_covers)
  show ?thesis
  proof (cases "unat (rd32 (rx e) 0) - 11 < 8")
    case True
    then show ?thesis using assms(1-10) le by (simp add: hd_unfold)
  next
    case False
    then have "unat (rd32 (rx e) 0) - 19 < unat (rd32 (rx e) 15)" using assms(11) by simp
    then show ?thesis using assms(1-10) le False by (simp add: hd_unfold)
  qed
qed


lemma new_effects_emit: "new_effects s (emit xs s) = xs"
  by (simp add: new_effects_def emit_def)

lemma new_effects_CloseFds:
  "new_effects s (CloseFds s) =
     [WriteGuardLock, SocketReset (adb_connection_socket s), WriteGuardUnlock]
     @ (if \<not> agent_loaded s \<and> notified_ddm_active s then [DdmDisconnected] else [])"
  by (simp add: new_effects_def CloseFds_def NotifyDdms_def emit_def Let_def)

lemma new_effects_Attach: "new_effects s (AttachJdwpAgent s e) = [AttachAgent]"
  by (simp add: new_effects_def AttachJdwpAgent_def emit_def Let_def)

lemma HandleData_local:
  assumes "performed_handshake s" and "IsDebuggingPossible e"
    and "\<not> peek_fails e" and "11 \<le> length (rx e)"
    and "rx e ! 9 = 199" and "rx e ! 10 = 1" and "11 \<le> unat (rd32 (rx e) 0)"
    and "\<not> ioctl_fails e" and "\<not> of_nat (length (rx e)) < rd32 (rx e) 0"
    and "\<not> recv_fails e"
  shows "AttachAgent \<notin> set (new_effects s (outcome_state (HandleDataWithoutAgent s e)))"
proof -
  have le: "unat (rd32 (rx e) 0) \<le> length (rx e)"
    using assms(9) by (rule avail_covers)
  show ?thesis using assms le
    by (simp add: hd_unfold outcome_state_def new_effects_def emit_def SendDdmPacket_def
        NotifyDdms_def)
qed



lemma no_attach_CloseFds: "AttachAgent \<notin> set (new_effects s (CloseFds s))"
  by (simp add: new_effects_CloseFds)

subsection \<open>The example states\<close>

lemma handshaken_eq:
  "handshaken =
     \<lparr>control_ctx = True, local_agent_control_sock = 3, adb_connection_socket = 7,
      shutting_down = False, agent_loaded = False, agent_listening = False,
      agent_has_socket = False, sent_agent_fds = False, performed_handshake = True,
      notified_ddm_active = False, next_ddm_id = 1,
      trace = [WriteGuardLock, WriteGuardUnlock, SockRecv kJdwpHandshake,
               SockSend kJdwpHandshake]\<rparr>"
  by (simp add: handshaken_def run_defs)

lemma agent_attached_eq:
  "agent_attached =
     \<lparr>control_ctx = True, local_agent_control_sock = 3, adb_connection_socket = 7,
      shutting_down = False, agent_loaded = True, agent_listening = False,
      agent_has_socket = False, sent_agent_fds = False, performed_handshake = True,
      notified_ddm_active = False, next_ddm_id = 1,
      trace = [WriteGuardLock, WriteGuardUnlock, SockRecv kJdwpHandshake,
               SockSend kJdwpHandshake, AttachAgent]\<rparr>"
  by (simp add: agent_attached_def agent_run_def run_defs)

lemma helo_chunk_bytes:
  "helo_chunk = [0, 0, 0, 23, 0, 0, 0, 2, 0, 199, 1, 0x48, 0x45, 0x4C, 0x4F, 0, 0, 0, 4, 0, 0, 0, 1]"
  by (simp add: helo_chunk_def be32_def)

subsection \<open>Where the notifications are sent\<close>

lemma HandleData_shape_phase:
  assumes "P (CheckFailed s)" and "P (PerformHandshake s e)" and "P (Ok (CloseFds s))"
    and "P (Ok (AttachJdwpAgent s e))"
    and "\<And>got. P (Ok (emit [SockRecv got] s))"
    and "\<And>got t d. performed_handshake s \<Longrightarrow> P (Ok (emit [DdmHandleChunk t d]
            (if \<not> notified_ddm_active (emit [SockRecv got] s)
             then NotifyDdms (emit [SockRecv got] s) True else emit [SockRecv got] s)))"
    and "\<And>got t d i rt r. performed_handshake s \<Longrightarrow> P (Ok (SendDdmPacket (emit [DdmHandleChunk t d]
            (if \<not> notified_ddm_active (emit [SockRecv got] s)
             then NotifyDdms (emit [SockRecv got] s) True else emit [SockRecv got] s))
            e i kReply rt r))"
  shows "P (HandleDataWithoutAgent s e)"
proof (cases "performed_handshake s")
  case True
  show ?thesis
    unfolding HandleDataWithoutAgent_def
    by (simp only: Let_def case_prod_beta assms(1-5) assms(6,7) [OF True] if_True if_False
        simp_thms split: if_split)
next
  case False
  then show ?thesis
    unfolding HandleDataWithoutAgent_def by (simp add: assms(1,2))
qed

lemma poll_iteration_shape_agent:
  assumes "P (Returned s)" and "P (Aborted s)" and "P (Running s)"
    and "\<And>i. P (OutOfBounds s i)"
    and "\<lbrakk>FlagsSet (agent_control_sock_poll s e) POLLIN; agent_msg e = kListenStartMessage;
          adb_connection_socket s \<noteq> - 1\<rbrakk>
         \<Longrightarrow> P (to_loop (SendAgentFds (s\<lparr>agent_listening := True\<rparr>) e (\<not> performed_handshake s)))"
    and "P (Running (s\<lparr>agent_listening := True\<rparr>))"
    and "P (Running (s\<lparr>agent_listening := False\<rparr>))"
    and "P (Running (s\<lparr>performed_handshake := True\<rparr>))"
    and "P (Running ((CloseFds s)\<lparr>agent_has_socket := False\<rparr>))"
    and "P (Running (s\<lparr>agent_has_socket := True, sent_agent_fds := False,
                       performed_handshake := False\<rparr>))"
    and "P (Running (s\<lparr>control_ctx := False\<rparr>))"
    and "P (Running (emit [WriteGuardUnlock] ((emit [WriteGuardLock] s)\<lparr>control_ctx := False\<rparr>)))"
    and "\<And>xs. \<lbrakk>sent_tokens xs = []; ddm_notifications xs = []\<rbrakk>
           \<Longrightarrow> P (Running (emit xs (emit [WriteGuardLock] s)))"
    and "\<lbrakk>\<not> FlagsSet (agent_control_sock_poll s e) POLLIN; receive_jdwp_fd e \<noteq> - 1\<rbrakk>
         \<Longrightarrow> P (to_loop (SendAgentFds
                (emit [WriteGuardUnlock]
                   ((emit [WriteGuardLock] s)\<lparr>adb_connection_socket := receive_jdwp_fd e\<rparr>))
                e True))"
    and "receive_jdwp_fd e \<noteq> - 1
         \<Longrightarrow> P (Running (emit [WriteGuardUnlock]
                   ((emit [WriteGuardLock] s)\<lparr>adb_connection_socket := receive_jdwp_fd e\<rparr>)))"
    and "\<not> agent_loaded s \<Longrightarrow> P (to_loop (HandleDataWithoutAgent s e))"
    and "\<lbrakk>\<not> FlagsSet (agent_control_sock_poll s e) POLLIN;
          FlagsSet (adb_socket_poll s e) POLLIN\<rbrakk>
         \<Longrightarrow> P (to_loop (SendAgentFds s e True))"
    and "P (Running (CloseFds s))"
  shows "P (poll_iteration s e)"
  unfolding poll_iteration_def to_loop_def [symmetric]
  by (simp add: Let_def assms emit_fields(1-11) split: from_transport.split)

lemma pass_state:
  "state_of (RunPollLoop s [e]) =
     (if stop_requested e then s\<lparr>shutting_down := True\<rparr>
      else if shutting_down s then s
      else if \<not> control_ctx s then snd (SetupAdbConnection s (setup_obs e))
      else state_of (poll_iteration s e))"
  by (simp add: Let_def StopDebuggerThreads_def state_of_simps
      split: prod.split option.split loop_result.split)

lemma setup_loop_trace:
  "\<exists>d. trace (snd (SetupAdbConnection_loop s m obs)) = trace s @ d
       \<and> DdmConnected \<notin> set d \<and> DdmDisconnected \<notin> set d"
proof (induction obs arbitrary: s m)
  case Nil
  then show ?case by simp
next
  case (Cons ob obs)
  obtain stop connected where ob: "ob = (stop, connected)" by (cases ob)
  define s1 where "s1 = (if stop then s\<lparr>shutting_down := True\<rparr> else s)"
  have t1: "trace s1 = trace s" by (simp add: s1_def)
  show ?case
  proof (cases "shutting_down s1 \<or> connected")
    case True
    then show ?thesis
      by (auto simp add: ob s1_def [symmetric] Let_def t1)
  next
    case False
    obtain d where d: "trace (snd (SetupAdbConnection_loop (emit [Usleep (m * 1000)] s1)
          (next_sleep_ms m) obs)) = trace (emit [Usleep (m * 1000)] s1) @ d"
      "DdmConnected \<notin> set d" "DdmDisconnected \<notin> set d"
      using Cons.IH by blast
    have "trace (snd (SetupAdbConnection_loop s m (ob # obs))) = trace s @ (Usleep (m * 1000) # d)"
      using False d(1) by (simp add: ob s1_def [symmetric] Let_def emit_fields t1)
    then show ?thesis using d(2,3) by (intro exI [of _ "Usleep (m * 1000) # d"]) simp
  qed
qed

lemma ddm_placed_quiet:
  assumes "trace s' = trace s @ d" and "DdmConnected \<notin> set d" and "DdmDisconnected \<notin> set d"
  shows "ddm_placed s s'"
  using assms by (simp add: ddm_placed_def new_effects_def)

lemma ddm_placed_CloseFds_after:
  assumes "trace s1 = trace s @ d" and "DdmConnected \<notin> set d" and "DdmDisconnected \<notin> set d"
    and "agent_loaded s1 = agent_loaded s" and "notified_ddm_active s1 = notified_ddm_active s"
    and "adb_connection_socket s1 = adb_connection_socket s"
  shows "ddm_placed s (CloseFds s1)"
  using assms
  by (simp add: ddm_placed_def new_effects_def CloseFds_def NotifyDdms_def emit_def Let_def
      fired_on_close_def)

lemma ddm_placed_CloseFds: "ddm_placed s (CloseFds s)"
  by (rule ddm_placed_CloseFds_after [of s s "[]"]) simp_all

lemma ddm_placed_update:
  "ddm_placed s (s'\<lparr>agent_has_socket := b\<rparr>) = ddm_placed s s'"
  "ddm_placed s (s'\<lparr>performed_handshake := b\<rparr>) = ddm_placed s s'"
  "ddm_placed s (s'\<lparr>sent_agent_fds := b\<rparr>) = ddm_placed s s'"
  by (simp_all add: ddm_placed_def new_effects_def)

lemma ddm_placed_PerformHandshake: "ddm_placed s (outcome_state (PerformHandshake s e))"
  unfolding PerformHandshake_def os_fionread_def os_recv_def Let_def
  by (simp add: outcome_state_def ddm_placed_CloseFds ddm_placed_update
      ddm_placed_quiet [of _ s "[]"]
      ddm_placed_quiet [of _ s "[SockRecv x, SockSend y]" for x y]
      ddm_placed_CloseFds_after [of _ s "[SockRecv x]" for x]
      ddm_placed_CloseFds_after [of _ s "[SockRecv x, SockSend y]" for x y]
      emit_def)

lemma ddm_placed_HandleData:
  "\<not> agent_loaded s \<Longrightarrow> ddm_placed s (outcome_state (HandleDataWithoutAgent s e))"
proof (rule HandleData_shape_phase)
  assume na: "\<not> agent_loaded s"
  show "ddm_placed s (outcome_state (CheckFailed s))"
    by (simp add: outcome_state_def ddm_placed_quiet [of _ s "[]"])
  show "ddm_placed s (outcome_state (PerformHandshake s e))"
    by (rule ddm_placed_PerformHandshake)
  show "ddm_placed s (outcome_state (Ok (CloseFds s)))"
    by (simp add: outcome_state_def ddm_placed_CloseFds)
  show "ddm_placed s (outcome_state (Ok (AttachJdwpAgent s e)))"
    by (rule ddm_placed_quiet [of _ _ "[AttachAgent]"])
      (simp_all add: outcome_state_def AttachJdwpAgent_def emit_def Let_def)
  show "ddm_placed s (outcome_state (Ok (emit [SockRecv got] s)))" for got
    by (rule ddm_placed_quiet [of _ _ "[SockRecv got]"]) (simp_all add: outcome_state_def emit_def)
  show "ddm_placed s (outcome_state (Ok (emit [DdmHandleChunk t d]
            (if \<not> notified_ddm_active (emit [SockRecv got] s)
             then NotifyDdms (emit [SockRecv got] s) True else emit [SockRecv got] s))))"
    if "performed_handshake s" for got t d
    using that na
    by (simp add: outcome_state_def ddm_placed_def new_effects_def emit_def NotifyDdms_def
        fired_on_packet_def)
  show "ddm_placed s (outcome_state (Ok (SendDdmPacket (emit [DdmHandleChunk t d]
            (if \<not> notified_ddm_active (emit [SockRecv got] s)
             then NotifyDdms (emit [SockRecv got] s) True else emit [SockRecv got] s))
            e i kReply rt r)))"
    if "performed_handshake s" for got t d i rt r
    using that na
    by (simp add: outcome_state_def ddm_placed_def new_effects_def emit_def NotifyDdms_def
        fired_on_packet_def SendDdmPacket_def Let_def nth_append)
qed


lemma ddm_placed_SendAgentFds:
  assumes "trace s1 = trace s @ d" and "DdmConnected \<notin> set d" and "DdmDisconnected \<notin> set d"
  shows "ddm_placed s (outcome_state (SendAgentFds s1 e r))"
  using assms
  by (simp add: SendAgentFds_def outcome_state_def Let_def emit_def
      ddm_placed_quiet [of _ s d] ddm_placed_quiet [of _ s "d @ [AgentSendmsg m n]" for m n])

lemma ddm_placed_poll_iteration: "ddm_placed s (state_of (poll_iteration s e))"
proof (rule poll_iteration_shape_agent)
  show "ddm_placed s (state_of (to_loop (HandleDataWithoutAgent s e)))" if "\<not> agent_loaded s"
    using that by (simp add: state_of_to_loop ddm_placed_HandleData)
  show "ddm_placed s (state_of (Running (emit xs (emit [WriteGuardLock] s))))"
    if "sent_tokens xs = []" and "ddm_notifications xs = []" for xs
  proof -
    have "DdmConnected \<notin> set xs \<and> DdmDisconnected \<notin> set xs"
      using that(2) by (induction xs rule: ddm_notifications.induct) simp_all
    then show ?thesis
      by (intro ddm_placed_quiet [of _ _ "WriteGuardLock # xs"])
        (simp_all add: state_of_simps emit_def)
  qed
qed (simp_all add: state_of_to_loop state_of_simps ddm_placed_CloseFds ddm_placed_update
      ddm_placed_quiet [of _ s "[]"]
      ddm_placed_quiet [of _ s "[WriteGuardLock, WriteGuardUnlock]"]
      ddm_placed_SendAgentFds [of _ s "[]"]
      ddm_placed_SendAgentFds [of _ s "[WriteGuardLock, WriteGuardUnlock]"]
      emit_def)

lemma ddm_placed_pass: "ddm_placed s (state_of (RunPollLoop s [e]))"
proof -
  obtain d where d: "trace (snd (SetupAdbConnection s (setup_obs e))) = trace s @ d"
      "DdmConnected \<notin> set d" "DdmDisconnected \<notin> set d"
    using setup_loop_trace [of s 500 "setup_obs e"] by (auto simp add: SetupAdbConnection_def)
  have "ddm_placed s (snd (SetupAdbConnection s (setup_obs e)))"
    using d by (rule ddm_placed_quiet)
  then show ?thesis
    unfolding pass_state
    by (simp add: ddm_placed_poll_iteration ddm_placed_quiet [of _ s "[]"])
qed

lemma stale_handoff_eq:
  "stale_handoff =
     \<lparr>control_ctx = True, local_agent_control_sock = 3, adb_connection_socket = - 1,
      shutting_down = False, agent_loaded = True, agent_listening = True,
      agent_has_socket = False, sent_agent_fds = True, performed_handshake = False,
      notified_ddm_active = False, next_ddm_id = 1,
      trace = [WriteGuardLock, WriteGuardUnlock, SockRecv kJdwpHandshake,
               SockSend kJdwpHandshake, AttachAgent, AgentSendmsg kSkipHandshakeMessage 15,
               WriteGuardLock, SocketReset 7, WriteGuardUnlock]\<rparr>"
  by (simp add: stale_handoff_def agent_run_def from_agent_def run_defs)

section \<open>The claims\<close>

subsection \<open>C1: the descriptors are handed over while a debug socket is owned\<close>

text \<open>
  Claim C1, as amended. Whenever a pass of the poll loop sends the descriptors to the
  agent, a debug socket is owned (\<open>adb_connection_socket\<close> is not \<open>-1\<close> after the
  pass), from whatever state, also one in which \<open>sent_agent_fds\<close> is already set, and
  whatever the environment does; so is it after a pass that sets \<open>sent_agent_fds\<close>. The
  flag does not imply \<open>agent_has_socket\<close>: that one is set by the accept message only,
  and the same pass clears \<open>sent_agent_fds\<close>.
\<close>

theorem handoff_while_socket_owned:
  "(sent_tokens (new_effects s (state_of (poll_iteration s e))) \<noteq> []
      \<longrightarrow> adb_connection_socket (state_of (poll_iteration s e)) \<noteq> - 1)
   \<and> (\<not> sent_agent_fds s \<and> sent_agent_fds (state_of (poll_iteration s e))
      \<longrightarrow> adb_connection_socket (state_of (poll_iteration s e)) \<noteq> - 1)
   \<and> (\<not> agent_has_socket s \<and> agent_has_socket (state_of (poll_iteration s e))
      \<longrightarrow> \<not> sent_agent_fds (state_of (poll_iteration s e)))"
  unfolding new_effects_def
  by (rule poll_iteration_shape)
    (simp_all add: state_of_to_loop state_of_simps SendAgentFds_fields frame_fields
       HandleData_frame adb_polled tokens_after)

text \<open>
  The theorem at the pass that hands the descriptors over on a listen-start, at a pass
  that adopts a connection and hands it over while \<open>sent_agent_fds\<close> is still set from
  the connection before, and at the pass that reads the accept.
\<close>

theorem handoff_while_socket_owned_witness:
  "\<not> sent_agent_fds agent_attached
   \<and> sent_agent_fds (state_of (poll_iteration agent_attached (from_agent kListenStartMessage)))
   \<and> sent_tokens (new_effects agent_attached
        (state_of (poll_iteration agent_attached (from_agent kListenStartMessage))))
      = [kSkipHandshakeMessage]
   \<and> adb_connection_socket
        (state_of (poll_iteration agent_attached (from_agent kListenStartMessage))) = 7
   \<and> sent_agent_fds stale_handoff \<and> adb_connection_socket stale_handoff = - 1
   \<and> new_effects stale_handoff
        (state_of (poll_iteration stale_handoff
           (idle\<lparr>control_events := POLLIN, receive_jdwp_fd := 8\<rparr>)))
      = [WriteGuardLock, WriteGuardUnlock, AgentSendmsg kPerformHandshakeMessage 15]
   \<and> adb_connection_socket
        (state_of (poll_iteration stale_handoff
           (idle\<lparr>control_events := POLLIN, receive_jdwp_fd := 8\<rparr>))) = 8
   \<and> \<not> agent_has_socket (agent_attached\<lparr>sent_agent_fds := True\<rparr>)
   \<and> agent_has_socket (state_of (poll_iteration (agent_attached\<lparr>sent_agent_fds := True\<rparr>)
                                   (from_agent kAcceptMessage)))
   \<and> \<not> sent_agent_fds (state_of (poll_iteration (agent_attached\<lparr>sent_agent_fds := True\<rparr>)
                                   (from_agent kAcceptMessage)))"
  using handoff_while_socket_owned [of agent_attached "from_agent kListenStartMessage"]
    handoff_while_socket_owned [of stale_handoff
      "idle\<lparr>control_events := POLLIN, receive_jdwp_fd := 8\<rparr>"]
    handoff_while_socket_owned [of "agent_attached\<lparr>sent_agent_fds := True\<rparr>"
      "from_agent kAcceptMessage"]
  by (simp add: agent_attached_eq stale_handoff_eq from_agent_def run_defs)

text \<open>
  Against C1 as it is written (\<open>sent_agent_fds\<close> implies \<open>agent_has_socket\<close> and a
  debug socket): a client connects and shakes hands, a packet makes the agent load, the
  agent says it listens and gets the descriptors. Now \<open>sent_agent_fds\<close> is set and
  \<open>agent_has_socket\<close> is not, until the agent accepts. If the agent then sends its
  close message, the socket is reset and \<open>sent_agent_fds\<close> stays set.
\<close>

theorem handoff_before_accept:
  "RunPollLoop (initial 3) (agent_run @ [from_agent kListenStartMessage]) =
     Running
       \<lparr>control_ctx = True, local_agent_control_sock = 3, adb_connection_socket = 7,
        shutting_down = False, agent_loaded = True, agent_listening = True,
        agent_has_socket = False, sent_agent_fds = True, performed_handshake = True,
        notified_ddm_active = False, next_ddm_id = 1,
        trace = [WriteGuardLock, WriteGuardUnlock, SockRecv kJdwpHandshake,
                 SockSend kJdwpHandshake, AttachAgent,
                 AgentSendmsg kSkipHandshakeMessage 15]\<rparr>
   \<and> sent_agent_fds (state_of (RunPollLoop (initial 3)
         (agent_run @ [from_agent kListenStartMessage, from_agent kCloseMessage])))
   \<and> adb_connection_socket (state_of (RunPollLoop (initial 3)
         (agent_run @ [from_agent kListenStartMessage, from_agent kCloseMessage]))) = - 1"
  by (simp add: agent_run_def from_agent_def run_defs)

subsection \<open>C2: the retry loop of the daemon rendezvous\<close>

text \<open>
  Claim C2, as amended. While the connect keeps failing and nobody stops the debugger,
  the loop of \<^verbatim>\<open>SetupAdbConnection\<close> keeps running and has slept, before its \<open>k\<close>-th
  retry, \<open>sleep_schedule k\<close> milliseconds: 500 at first, then half as much again after
  each failure (rounded down), and never more than 2000, that is 500, 750, 1125, 1687
  and 2000 from then on. As soon as the stop is seen at the head of the loop, the
  function returns \<open>false\<close> without another sleep.
\<close>

theorem SetupAdbConnection_backoff:
  assumes "\<not> shutting_down s"
  shows "SetupAdbConnection s (replicate n (False, False)) =
           (None, emit (map (\<lambda>k. Usleep (sleep_schedule k * 1000)) [0..<n]) s)
       \<and> SetupAdbConnection s (replicate n (False, False) @ (True, c) # rest) =
           (Some False,
            emit (map (\<lambda>k. Usleep (sleep_schedule k * 1000)) [0..<n])
              (s\<lparr>shutting_down := True\<rparr>))
       \<and> sleep_schedule 0 = 500 \<and> sleep_schedule 1 = 750 \<and> sleep_schedule 2 = 1125
       \<and> sleep_schedule 3 = 1687 \<and> (\<forall>k\<ge>4. sleep_schedule k = 2000)"
proof -
  have a: "SetupAdbConnection s (replicate n (False, False)) =
           (None, emit (map (\<lambda>k. Usleep (sleep_schedule k * 1000)) [0..<n]) s)"
    using setup_loop_failures [OF assms, of 500 n "[]"]
    by (simp add: SetupAdbConnection_def sleep_schedule_def)
  have b: "SetupAdbConnection s (replicate n (False, False) @ (True, c) # rest) =
           (Some False,
            emit (map (\<lambda>k. Usleep (sleep_schedule k * 1000)) [0..<n])
              (s\<lparr>shutting_down := True\<rparr>))"
    using setup_loop_failures [OF assms, of 500 n "(True, c) # rest"]
    by (simp add: SetupAdbConnection_def sleep_schedule_def emit_def)
  have c: "sleep_schedule 0 = 500 \<and> sleep_schedule 1 = 750 \<and> sleep_schedule 2 = 1125
       \<and> sleep_schedule 3 = 1687"
    by (simp add: sleep_schedule_def next_sleep_ms_def eval_nat_numeral)
  from a b c sleep_schedule_cap show ?thesis by blast
qed

text \<open>The theorem at six failures followed by a stop.\<close>

theorem SetupAdbConnection_backoff_witness:
  "\<not> shutting_down (initial 3)
   \<and> SetupAdbConnection (initial 3) (replicate 6 (False, False) @ [(True, False)]) =
       (Some False,
        (initial 3)\<lparr>shutting_down := True,
          trace := [Usleep 500000, Usleep 750000, Usleep 1125000, Usleep 1687000,
                    Usleep 2000000, Usleep 2000000]\<rparr>)
   \<and> sleep_schedule 4 = 2000 \<and> sleep_schedule 5 = 2000"
proof -
  have upt: "[0..<6] = [0, 1, 2, 3, 4, 5 :: nat]"
    by code_simp
  show ?thesis
    using SetupAdbConnection_backoff [of "initial 3" 6 False "[]"] upt
    by (simp add: initial_def emit_def)
qed

text \<open>
  Against C2 as it is written (the sleep doubles: 500, 1000, 2000): after two failures
  the loop has slept 500 ms and 750 ms, not 500 ms and 1000 ms.
\<close>

theorem SetupAdbConnection_second_sleep:
  "trace (snd (SetupAdbConnection (initial 3) [(False, False), (False, False), (True, False)]))
     = [Usleep (500 * 1000), Usleep (750 * 1000)]
   \<and> trace (snd (SetupAdbConnection (initial 3) [(False, False), (False, False), (True, False)]))
     \<noteq> [Usleep (500 * 1000), Usleep (1000 * 1000)]"
  by (simp add: run_defs)

subsection \<open>C3: the handshake\<close>

text \<open>
  Claim C3, as amended. In the handshake phase (\<open>performed_handshake\<close> false), when
  the count of readable bytes can be queried and is at least 14, the read succeeds and
  the 14 bytes read are the handshake string, those 14 bytes are sent back, and
  \<open>performed_handshake\<close> becomes true if the send takes all 14 of them; if it does
  not, the connection is closed. When the query or the read fails, fewer than 14 bytes
  are readable, or the bytes differ, the connection is closed and nothing is sent.
  (The queue of a socket holds fewer than \<open>2\<^sup>3\<^sup>2\<close> bytes, so the count fits the
  32-bit \<^verbatim>\<open>avail\<close>.)
\<close>

theorem PerformHandshake_outcomes:
  assumes "\<not> performed_handshake s" and "length (rx e) < 2 ^ 32"
  shows "PerformHandshake s e =
    (if ioctl_fails e \<or> length (rx e) < 14 \<or> recv_fails e then Ok (CloseFds s)
     else if take 14 (rx e) \<noteq> kJdwpHandshake
     then Ok (CloseFds (emit [SockRecv (take 14 (rx e))] s))
     else if send_res e < 14
     then Ok (CloseFds (emit [SockRecv kJdwpHandshake, SockSend kJdwpHandshake] s))
     else Ok ((emit [SockRecv kJdwpHandshake, SockSend kJdwpHandshake] s)
                \<lparr>performed_handshake := True\<rparr>))"
proof -
  have n: "unat (of_nat (length (rx e)) :: u32) = length (rx e)"
    using assms(2) by (rule unat_count)
  show ?thesis
  proof (cases "ioctl_fails e \<or> length (rx e) < 14")
    case True
    then show ?thesis using assms(1)
      by (auto simp add: PerformHandshake_def os_fionread_def n length_kJdwpHandshake)
  next
    case avail: False
    show ?thesis
    proof (cases "recv_fails e")
      case True
      then show ?thesis using assms(1) avail
        by (simp add: PerformHandshake_def os_fionread_def os_recv_def n length_kJdwpHandshake)
    next
      case False
      have len: "length (take 14 (rx e)) = 14" using avail by simp
      show ?thesis using assms(1) avail False strncmp_handshake [OF len]
        by (simp add: PerformHandshake_def os_fionread_def os_recv_def n length_kJdwpHandshake
            Let_def emit_def min_def)
    qed
  qed
qed

text \<open>The theorem at a client that sends the handshake, and at one that sends 13 bytes of it.\<close>

theorem PerformHandshake_outcomes_witness:
  "\<not> performed_handshake ((initial 3)\<lparr>adb_connection_socket := 7\<rparr>)
   \<and> length (rx (idle\<lparr>rx := kJdwpHandshake\<rparr>)) < 2 ^ 32
   \<and> PerformHandshake ((initial 3)\<lparr>adb_connection_socket := 7\<rparr>) (idle\<lparr>rx := kJdwpHandshake\<rparr>)
      = Ok ((initial 3)\<lparr>adb_connection_socket := 7, performed_handshake := True,
              trace := [SockRecv kJdwpHandshake, SockSend kJdwpHandshake]\<rparr>)
   \<and> PerformHandshake ((initial 3)\<lparr>adb_connection_socket := 7\<rparr>)
        (idle\<lparr>rx := take 13 kJdwpHandshake\<rparr>)
      = Ok ((initial 3)\<lparr>trace := [WriteGuardLock, SocketReset 7, WriteGuardUnlock]\<rparr>)"
  using PerformHandshake_outcomes [of "(initial 3)\<lparr>adb_connection_socket := 7\<rparr>" "idle\<lparr>rx := kJdwpHandshake\<rparr>"]
    PerformHandshake_outcomes [of "(initial 3)\<lparr>adb_connection_socket := 7\<rparr>" "idle\<lparr>rx := take 13 kJdwpHandshake\<rparr>"]
  by (simp add: initial_def idle_def emit_def CloseFds_def Let_def length_kJdwpHandshake)

text \<open>
  Against C3 as it is written (the handshake bytes being there is enough for
  \<open>performed_handshake\<close> to become true): the client sends the handshake, but the
  \<^verbatim>\<open>send\<close> of the reply fails. The connection is closed and \<open>performed_handshake\<close>
  stays false.
\<close>

theorem PerformHandshake_send_fails:
  "PerformHandshake ((initial 3)\<lparr>adb_connection_socket := 7\<rparr>)
     (idle\<lparr>rx := kJdwpHandshake, send_res := - 1\<rparr>)
   = Ok ((initial 3)\<lparr>adb_connection_socket := - 1, performed_handshake := False,
           trace := [SockRecv kJdwpHandshake, SockSend kJdwpHandshake,
                     WriteGuardLock, SocketReset 7, WriteGuardUnlock]\<rparr>)"
  by (simp add: run_defs)

subsection \<open>C4: the reply to a DDM chunk\<close>

text \<open>
  Claim C4. In the packet phase, with a connection, let the socket hold a DDM chunk
  packet with id \<open>I\<close>, inner type \<open>T\<close> and inner payload \<open>P\<close> (command set 199,
  command 1, a total length that covers the header, the inner header, \<open>P\<close> and what
  may follow it inside the packet), let the peek, the count query and the read succeed,
  and let \<^verbatim>\<open>DdmHandleChunk\<close> answer \<open>(true, T', P')\<close> to \<open>T\<close> and \<open>P\<close>. Then the packet is consumed, the callback is called once, and exactly one
  packet is written, under the write guard: the big-endian total length
  \<open>11 + 8 + length P'\<close>, the id \<open>I\<close>, the reply variant of the flags byte and two
  zero bytes, then the big-endian \<open>T'\<close>, the big-endian \<open>length P'\<close>, and \<open>P'\<close>.
\<close>

theorem ddm_reply_packet:
  assumes "performed_handshake s" and "adb_connection_socket s \<noteq> - 1"
    and "IsDebuggingPossible e"
    and "\<not> peek_fails e" and "\<not> ioctl_fails e" and "\<not> recv_fails e"
    and rx: "rx e = be32 (of_nat (11 + 8 + length P + length pad)) @ be32 I @ [flags, 199, 1]
                    @ be32 T @ be32 (of_nat (length P)) @ P @ pad @ rest"
    and bound: "length (rx e) < 2 ^ 32"
    and reply: "ddm_handle_chunk e T P = (True, T', P')"
  shows "HandleDataWithoutAgent s e =
     Ok (emit ([SockRecv (be32 (of_nat (11 + 8 + length P + length pad)) @ be32 I
                          @ [flags, 199, 1] @ be32 T @ be32 (of_nat (length P)) @ P @ pad)]
               @ (if notified_ddm_active s then [] else [DdmConnected])
               @ [DdmHandleChunk T P,
                  WriteGuardLock,
                  SockSend (be32 (of_nat (11 + 8 + length P')) @ be32 I
                            @ [packet_type_byte e kReply, 0, 0]
                            @ be32 T' @ be32 (of_nat (length P')) @ P'),
                  WriteGuardUnlock])
           (s\<lparr>notified_ddm_active := True\<rparr>))"
proof -
  define n where "n = 19 + length P + length pad"
  define L :: u32 where "L = of_nat n"
  define N :: u32 where "N = of_nat (length P)"
  define pkt where "pkt = be32 L @ be32 I @ [flags, 199, 1] @ be32 T @ be32 N @ P @ pad"
  have L: "(of_nat (11 + 8 + length P + length pad) :: u32) = L"
    by (simp add: L_def n_def)
  have rx': "rx e = be32 L @ be32 I @ [flags, 199, 1] @ be32 T @ be32 N @ P @ pad @ rest"
    using rx by (simp only: L N_def)
  have len: "length (rx e) = n + length rest"
    by (simp add: rx' length_be32 n_def)
  have small: "n < 2 ^ 32" "length P < 2 ^ 32"
    using bound len by (simp_all add: n_def)
  have full: "rd32 (rx e) 0 = L"
    unfolding rx' using rd32_be32 [of "[]" 0 L] by simp
  have unat_full: "unat L = n"
    unfolding L_def using small(1) by (rule unat_count)
  have ident: "rd32 (rx e) 4 = I"
    unfolding rx' using rd32_be32 [of "be32 L" 4 I] by (simp add: length_be32)
  have cmd: "rx e ! 9 = 199" "rx e ! 10 = 1"
    unfolding rx' by (simp_all add: nth_append length_be32)
  have "unat (of_nat (length (rx e)) :: u32) = length (rx e)"
    using bound by (rule unat_count)
  then have avail: "\<not> of_nat (length (rx e)) < L"
    by (simp add: word_less_nat_alt unat_full len)
  have lenpkt: "length pkt = n"
    by (simp add: pkt_def length_be32 n_def)
  have "rx e = pkt @ rest"
    by (simp add: rx' pkt_def)
  then have got: "take n (rx e) = pkt"
    by (simp add: lenpkt)
  have type: "rd32 pkt 11 = T"
    unfolding pkt_def
    using rd32_be32 [of "be32 L @ be32 I @ [flags, 199, 1]" 11 T "be32 N @ P @ pad"]
    by (simp add: length_be32)
  have plen: "rd32 pkt 15 = N"
    unfolding pkt_def
    using rd32_be32 [of "be32 L @ be32 I @ [flags, 199, 1] @ be32 T" 15 N "P @ pad"]
    by (simp add: length_be32)
  have unat_plen: "unat N = length P"
    unfolding N_def using small(2) by (rule unat_count)
  have "pkt = (be32 L @ be32 I @ [flags, 199, 1] @ be32 T @ be32 N) @ P @ pad"
    by (simp add: pkt_def)
  moreover have "length (be32 L @ be32 I @ [flags, 199, 1] @ be32 T @ be32 N) = 19"
    by (simp add: length_be32)
  ultimately have payload: "take (length P) (drop 19 pkt) = P"
    by (simp del: append_assoc)
  have n19: "19 \<le> n" "\<not> n - 11 < 8" "\<not> n - 19 < length P" "11 \<le> length (rx e)"
    by (simp_all add: n_def len)
  have hdr: "HandleDataWithoutAgent s e =
      (let s1 = emit [SockRecv pkt] s;
           s2 = (if \<not> notified_ddm_active s1 then NotifyDdms s1 True else s1);
           s3 = emit [DdmHandleChunk T P] s2
       in Ok (SendDdmPacket s3 e I kReply T' P'))"
    using assms(1,3-6) n19
    by (simp add: hd_unfold full unat_full ident cmd avail got type plen unat_plen payload
        lenpkt reply)
  show ?thesis
    unfolding hdr using assms(1,2)
    by (simp add: Let_def SendDdmPacket_def NotifyDdms_def emit_def kDdmPacketHeaderSize_def
        kJdwpHeaderLen_def pkt_def L_def N_def n_def)
qed

text \<open>The theorem at a \<open>HELO\<close> chunk with a three-byte reply.\<close>

theorem ddm_reply_packet_witness:
  "performed_handshake handshaken \<and> adb_connection_socket handshaken \<noteq> - 1
   \<and> ddm_handle_chunk
        (idle\<lparr>rx := helo_chunk, ddm_handle_chunk := (\<lambda>t p. (True, 0x48454C4F, [1, 2, 3]))\<rparr>)
        0x48454C4F [0, 0, 0, 1] = (True, 0x48454C4F, [1, 2, 3])
   \<and> HandleDataWithoutAgent handshaken
        (idle\<lparr>rx := helo_chunk, ddm_handle_chunk := (\<lambda>t p. (True, 0x48454C4F, [1, 2, 3]))\<rparr>)
      = Ok (handshaken\<lparr>notified_ddm_active := True,
              trace := trace handshaken @
                [SockRecv helo_chunk, DdmConnected, DdmHandleChunk 0x48454C4F [0, 0, 0, 1],
                 WriteGuardLock,
                 SockSend [0, 0, 0, 22, 0, 0, 0, 2, 0x80, 0, 0, 0x48, 0x45, 0x4C, 0x4F,
                           0, 0, 0, 3, 1, 2, 3],
                 WriteGuardUnlock]\<rparr>)"
  using ddm_reply_packet [of handshaken
      "idle\<lparr>rx := helo_chunk, ddm_handle_chunk := (\<lambda>t p. (True, 0x48454C4F, [1, 2, 3]))\<rparr>"
      "[0, 0, 0, 1]" "[]" 2 0 "0x48454C4F" "[]" "0x48454C4F" "[1, 2, 3]"]
  by (simp add: handshaken_eq idle_def helo_chunk_def emit_def be32_def)

text \<open>
  Claim C5, as amended. In the packet phase, \<^verbatim>\<open>AttachJdwpAgent\<close> is called if and only if
  the peek of the header returns at least one byte and one of these holds: it returns
  fewer than 11 bytes; the command set is not 199; the command is not 1; the declared
  length is below 11; the count query succeeds and reports fewer bytes than the declared
  length. In these cases the call of the attach is all that happens: nothing is
  consumed and the socket stays open. (When the peek returns nothing or fails, or the
  count query fails, the connection is closed and the agent is not attached.)
\<close>

theorem escalation_to_agent:
  assumes "performed_handshake s" and "IsDebuggingPossible e"
  shows "(AttachAgent \<in> set (new_effects s (outcome_state (HandleDataWithoutAgent s e))) \<longleftrightarrow>
            \<not> peek_fails e \<and> rx e \<noteq> [] \<and>
            (length (rx e) < 11 \<or> rx e ! 9 \<noteq> 199 \<or> rx e ! 10 \<noteq> 1
             \<or> unat (rd32 (rx e) 0) < 11
             \<or> (\<not> ioctl_fails e \<and> of_nat (length (rx e)) < rd32 (rx e) 0)))
       \<and> (AttachAgent \<in> set (new_effects s (outcome_state (HandleDataWithoutAgent s e))) \<longrightarrow>
            HandleDataWithoutAgent s e = Ok (AttachJdwpAgent s e)
            \<and> new_effects s (AttachJdwpAgent s e) = [AttachAgent]
            \<and> adb_connection_socket (AttachJdwpAgent s e) = adb_connection_socket s)
       \<and> (peek_fails e \<or> rx e = [] \<longrightarrow> HandleDataWithoutAgent s e = Ok (CloseFds s))
       \<and> (\<not> peek_fails e \<and> 11 \<le> length (rx e) \<and> rx e ! 9 = 199 \<and> rx e ! 10 = 1
            \<and> 11 \<le> unat (rd32 (rx e) 0) \<and> ioctl_fails e
          \<longrightarrow> HandleDataWithoutAgent s e = Ok (CloseFds s))"
proof -
  let ?esc = "\<not> peek_fails e \<and> rx e \<noteq> [] \<and>
            (length (rx e) < 11 \<or> rx e ! 9 \<noteq> 199 \<or> rx e ! 10 \<noteq> 1
             \<or> unat (rd32 (rx e) 0) < 11
             \<or> (\<not> ioctl_fails e \<and> of_nat (length (rx e)) < rd32 (rx e) 0))"
  let ?new = "new_effects s (outcome_state (HandleDataWithoutAgent s e))"
  have attach: "HandleDataWithoutAgent s e = Ok (AttachJdwpAgent s e)" if ?esc
  proof -
    from that have p: "\<not> peek_fails e" and q: "rx e \<noteq> []" by simp_all
    show ?thesis
    proof (cases "length (rx e) < 11")
      case True
      then show ?thesis using assms p q by (simp add: HandleData_short)
    next
      case long: False
      then have l: "11 \<le> length (rx e)" by simp
      show ?thesis
      proof (cases "rx e ! 9 \<noteq> 199 \<or> rx e ! 10 \<noteq> 1 \<or> unat (rd32 (rx e) 0) < 11")
        case True
        then show ?thesis using assms p l by (rule HandleData_unknown [rotated 4])
      next
        case False
        with that long have "\<not> ioctl_fails e" and "of_nat (length (rx e)) < rd32 (rx e) 0"
          by auto
        with False show ?thesis using assms p l by (simp add: HandleData_partial)
      qed
    qed
  qed
  have other: "AttachAgent \<notin> set ?new" if "\<not> ?esc"
  proof (cases "peek_fails e \<or> rx e = []")
    case True
    then have "HandleDataWithoutAgent s e = Ok (CloseFds s)"
      using assms by (simp add: HandleData_eof)
    then show ?thesis by (simp add: outcome_state_def no_attach_CloseFds)
  next
    case False
    with that have h: "\<not> peek_fails e" "11 \<le> length (rx e)" "rx e ! 9 = 199" "rx e ! 10 = 1"
        "11 \<le> unat (rd32 (rx e) 0)"
      and i: "ioctl_fails e \<or> \<not> of_nat (length (rx e)) < rd32 (rx e) 0"
      by auto
    show ?thesis
    proof (cases "ioctl_fails e")
      case True
      then have "HandleDataWithoutAgent s e = Ok (CloseFds s)"
        using assms h by (simp add: HandleData_ioctl_fails)
      then show ?thesis by (simp add: outcome_state_def no_attach_CloseFds)
    next
      case io: False
      with i have a: "\<not> of_nat (length (rx e)) < rd32 (rx e) 0" by simp
      show ?thesis
      proof (cases "recv_fails e")
        case True
        then have "HandleDataWithoutAgent s e = Ok (CloseFds s)"
          using assms h io a by (simp add: HandleData_recv_fails)
        then show ?thesis by (simp add: outcome_state_def no_attach_CloseFds)
      next
        case False
        then show ?thesis using assms h io a by (simp add: HandleData_local)
      qed
    qed
  qed
  have frame: "new_effects s (AttachJdwpAgent s e) = [AttachAgent]
      \<and> adb_connection_socket (AttachJdwpAgent s e) = adb_connection_socket s"
    by (simp add: new_effects_Attach Attach_fields)
  have iff: "AttachAgent \<in> set ?new \<longleftrightarrow> ?esc"
  proof
    assume "AttachAgent \<in> set ?new"
    with other show ?esc by blast
  next
    assume ?esc
    then have "HandleDataWithoutAgent s e = Ok (AttachJdwpAgent s e)" by (rule attach)
    then show "AttachAgent \<in> set ?new"
      by (simp add: outcome_state_def new_effects_Attach)
  qed
  from iff attach frame HandleData_eof [OF assms] HandleData_ioctl_fails [OF assms]
  show ?thesis by blast
qed

text \<open>
  The theorem at a packet of another command set and at a chunk that has arrived in
  part (the agent is attached), and at a whole chunk (it is not).
\<close>

theorem escalation_to_agent_witness:
  "performed_handshake handshaken
   \<and> HandleDataWithoutAgent handshaken (idle\<lparr>rx := version_cmd\<rparr>)
       = Ok (handshaken\<lparr>agent_loaded := True, trace := trace handshaken @ [AttachAgent]\<rparr>)
   \<and> HandleDataWithoutAgent handshaken (idle\<lparr>rx := take 15 helo_chunk\<rparr>)
       = Ok (handshaken\<lparr>agent_loaded := True, trace := trace handshaken @ [AttachAgent]\<rparr>)
   \<and> AttachAgent \<notin> set (new_effects handshaken
         (outcome_state (HandleDataWithoutAgent handshaken (idle\<lparr>rx := helo_chunk\<rparr>))))
   \<and> HandleDataWithoutAgent handshaken (idle\<lparr>rx := helo_chunk, ioctl_fails := True\<rparr>)
       = Ok (handshaken\<lparr>adb_connection_socket := - 1, performed_handshake := False,
               trace := trace handshaken @ [WriteGuardLock, SocketReset 7, WriteGuardUnlock]\<rparr>)"
  using escalation_to_agent [of handshaken "idle\<lparr>rx := version_cmd\<rparr>"]
    escalation_to_agent [of handshaken "idle\<lparr>rx := take 15 helo_chunk\<rparr>"]
    escalation_to_agent [of handshaken "idle\<lparr>rx := helo_chunk\<rparr>"]
    escalation_to_agent [of handshaken "idle\<lparr>rx := helo_chunk, ioctl_fails := True\<rparr>"]
  by (simp add: handshaken_eq idle_def helo_chunk_bytes version_cmd_def be32_def rd32_def
      AttachJdwpAgent_def CloseFds_def Let_def emit_def)

text \<open>
  Against C5 as it is written (a peek that returns fewer than 11 bytes attaches the
  agent and keeps the connection): the peer has closed its end, the peek returns no
  byte. The connection is closed and the agent is not attached.
\<close>

theorem peer_closed_in_packet_phase:
  "HandleDataWithoutAgent handshaken (idle\<lparr>rx := []\<rparr>)
     = Ok (handshaken\<lparr>adb_connection_socket := - 1, performed_handshake := False,
             trace := trace handshaken @ [WriteGuardLock, SocketReset 7, WriteGuardUnlock]\<rparr>)
   \<and> AttachAgent \<notin> set (new_effects handshaken
         (outcome_state (HandleDataWithoutAgent handshaken (idle\<lparr>rx := []\<rparr>))))"
  by (simp add: handshaken_eq run_defs)

subsection \<open>C6: a chunk with a broken inner framing\<close>

text \<open>
  Claim C6. A DDM chunk packet that is handled here (the header is recognised, the
  count query reports the whole packet, the read succeeds) and whose inner framing is
  broken (fewer than 8 bytes after the header, or an inner length larger than what
  follows the inner header) is consumed whole and nothing else happens: no reply, no
  call of \<^verbatim>\<open>DdmHandleChunk\<close>, no notification, and the socket stays open.
\<close>

theorem malformed_chunk_dropped:
  assumes "performed_handshake s" and "IsDebuggingPossible e"
    and "\<not> peek_fails e" and "11 \<le> length (rx e)"
    and "rx e ! 9 = 199" and "rx e ! 10 = 1" and "11 \<le> unat (rd32 (rx e) 0)"
    and "\<not> ioctl_fails e" and "\<not> of_nat (length (rx e)) < rd32 (rx e) 0"
    and "\<not> recv_fails e"
    and "unat (rd32 (rx e) 0) - 11 < 8
         \<or> unat (rd32 (rx e) 0) - 19 < unat (rd32 (rx e) 15)"
  shows "HandleDataWithoutAgent s e = Ok (emit [SockRecv (take (unat (rd32 (rx e) 0)) (rx e))] s)"
  using assms by (rule HandleData_malformed)


text \<open>The theorem at the two broken packets.\<close>

theorem malformed_chunk_dropped_witness:
  "performed_handshake handshaken
   \<and> HandleDataWithoutAgent handshaken (idle\<lparr>rx := short_chunk\<rparr>)
       = Ok (handshaken\<lparr>trace := trace handshaken @ [SockRecv short_chunk]\<rparr>)
   \<and> HandleDataWithoutAgent handshaken (idle\<lparr>rx := overlong_chunk\<rparr>)
       = Ok (handshaken\<lparr>trace := trace handshaken @ [SockRecv overlong_chunk]\<rparr>)"
  using malformed_chunk_dropped [of handshaken "idle\<lparr>rx := short_chunk\<rparr>"]
    malformed_chunk_dropped [of handshaken "idle\<lparr>rx := overlong_chunk\<rparr>"]
  by (simp add: handshaken_eq idle_def short_chunk_def overlong_chunk_def be32_def rd32_def
      emit_def)

subsection \<open>C7: the message that goes with the descriptors\<close>

text \<open>
  Claim C7 does not hold of the code. On a connection whose handshake is done
  (\<open>performed_handshake\<close> set, agent loaded, debug socket owned), the two places that
  hand the descriptors over disagree: the answer to a listen-start passes
  \<open>\<not> performed_handshake\<close> and sends \<^verbatim>\<open>kSkipHandshakeMessage\<close>, the retry on data
  (agent listening, no descriptors sent yet) passes \<open>true\<close> and sends
  \<^verbatim>\<open>kPerformHandshakeMessage\<close>.
\<close>

theorem handoff_sites_disagree:
  assumes "0 \<le> poll_res e" and "IsDebuggingPossible e" and "dup_ok e"
    and "agent_loaded s" and "adb_connection_socket s \<noteq> - 1" and "performed_handshake s"
  shows "(FlagsSet (agent_control_sock_poll s e) POLLIN \<and> 0 \<le> agent_recv_res e
          \<and> agent_recv_res e < int agent_recv_len \<and> agent_msg e = kListenStartMessage
          \<longrightarrow> sent_tokens (new_effects s (state_of (poll_iteration s e)))
                = [kSkipHandshakeMessage])
       \<and> (\<not> FlagsSet (agent_control_sock_poll s e) POLLIN
          \<and> FlagsSet (adb_socket_poll s e) POLLIN
          \<and> agent_listening s \<and> \<not> sent_agent_fds s
          \<longrightarrow> sent_tokens (new_effects s (state_of (poll_iteration s e)))
                = [kPerformHandshakeMessage])"
proof -
  have quiet: "\<not> FlagsSet (control_sock_poll s e) POLLIN"
    "\<not> FlagsSet (control_sock_poll s e) POLLRDHUP"
    using assms(5)
    by (simp_all add: control_sock_poll_def poll_revents_def FlagsSet_def POLLIN_def
        POLLRDHUP_def)
  show ?thesis
    using assms quiet
    by (auto simp add: poll_iteration_def Let_def agent_recv_len_def kBufSize_def
        SendAgentFds_def state_of_simps new_effects_def emit_def)
qed

text \<open>
  The theorem at the run that gets there: the handshake is done here, the agent loads,
  the \<^verbatim>\<open>sendmsg\<close> that answers its listen-start fails, and data arrives.
\<close>

theorem handoff_sites_disagree_witness:
  "performed_handshake agent_attached \<and> agent_loaded agent_attached
   \<and> adb_connection_socket agent_attached = 7
   \<and> sent_tokens (new_effects agent_attached
        (state_of (poll_iteration agent_attached (from_agent kListenStartMessage))))
      = [kSkipHandshakeMessage]
   \<and> state_of (RunPollLoop (initial 3)
        (agent_run @ [(from_agent kListenStartMessage)\<lparr>sendmsg_res := - 1\<rparr>]))
      = agent_attached\<lparr>agent_listening := True,
          trace := trace agent_attached @ [AgentSendmsg kSkipHandshakeMessage (- 1)]\<rparr>
   \<and> sent_tokens (new_effects
        (agent_attached\<lparr>agent_listening := True,
          trace := trace agent_attached @ [AgentSendmsg kSkipHandshakeMessage (- 1)]\<rparr>)
        (state_of (poll_iteration
           (agent_attached\<lparr>agent_listening := True,
             trace := trace agent_attached @ [AgentSendmsg kSkipHandshakeMessage (- 1)]\<rparr>)
           (idle\<lparr>adb_events := POLLIN, rx := version_cmd\<rparr>))))
      = [kPerformHandshakeMessage]"
  using handoff_sites_disagree [of "from_agent kListenStartMessage" agent_attached]
    handoff_sites_disagree [of "idle\<lparr>adb_events := POLLIN, rx := version_cmd\<rparr>"
      "agent_attached\<lparr>agent_listening := True,
          trace := trace agent_attached @ [AgentSendmsg kSkipHandshakeMessage (- 1)]\<rparr>"]
  by (simp add: agent_attached_eq agent_run_def from_agent_def run_defs)

text \<open>
  What a pass sends in general: the descriptors at most once, with
  \<^verbatim>\<open>kSkipHandshakeMessage\<close> exactly when the pass answers a listen-start and
  \<open>performed_handshake\<close> is set, with \<^verbatim>\<open>kPerformHandshakeMessage\<close> otherwise.
\<close>

theorem handoff_token:
  "sent_tokens (new_effects s (state_of (poll_iteration s e))) = []
   \<or> sent_tokens (new_effects s (state_of (poll_iteration s e))) =
       [if FlagsSet (agent_control_sock_poll s e) POLLIN
           \<and> agent_msg e = kListenStartMessage \<and> performed_handshake s
        then kSkipHandshakeMessage else kPerformHandshakeMessage]"
  unfolding new_effects_def
  by (rule poll_iteration_shape)
    (simp_all add: state_of_to_loop state_of_simps frame_fields tokens_after
       HandleData_frame SendAgentFds_tokens emit_fields(12))

text \<open>
  The four handoffs: a listen-start after and before a handshake, an adopted
  connection, and data on the debug socket.
\<close>

theorem handoff_token_witness:
  "sent_tokens (new_effects agent_attached
      (state_of (poll_iteration agent_attached (from_agent kListenStartMessage))))
     = [kSkipHandshakeMessage]
   \<and> sent_tokens (new_effects (agent_attached\<lparr>performed_handshake := False\<rparr>)
        (state_of (poll_iteration (agent_attached\<lparr>performed_handshake := False\<rparr>)
           (from_agent kListenStartMessage))))
     = [kPerformHandshakeMessage]
   \<and> sent_tokens (new_effects
        (agent_attached\<lparr>adb_connection_socket := - 1, agent_listening := True,
           performed_handshake := False\<rparr>)
        (state_of (poll_iteration
           (agent_attached\<lparr>adb_connection_socket := - 1, agent_listening := True,
              performed_handshake := False\<rparr>)
           (idle\<lparr>control_events := POLLIN, receive_jdwp_fd := 8\<rparr>))))
     = [kPerformHandshakeMessage]
   \<and> sent_tokens (new_effects (agent_attached\<lparr>agent_listening := True\<rparr>)
        (state_of (poll_iteration (agent_attached\<lparr>agent_listening := True\<rparr>)
           (idle\<lparr>adb_events := POLLIN, rx := version_cmd\<rparr>))))
     = [kPerformHandshakeMessage]"
  using handoff_token [of agent_attached "from_agent kListenStartMessage"]
    handoff_token [of "agent_attached\<lparr>performed_handshake := False\<rparr>"
      "from_agent kListenStartMessage"]
    handoff_token [of "agent_attached\<lparr>adb_connection_socket := - 1, agent_listening := True,
           performed_handshake := False\<rparr>" "idle\<lparr>control_events := POLLIN, receive_jdwp_fd := 8\<rparr>"]
    handoff_token [of "agent_attached\<lparr>agent_listening := True\<rparr>"
      "idle\<lparr>adb_events := POLLIN, rx := version_cmd\<rparr>"]
  by (simp add: agent_attached_eq from_agent_def run_defs)

text \<open>The whole run with the failing \<^verbatim>\<open>sendmsg\<close>, from the start.\<close>

theorem handoff_retry_demands_handshake:
  "RunPollLoop (initial 3)
     (agent_run @ [(from_agent kListenStartMessage)\<lparr>sendmsg_res := - 1\<rparr>,
                   idle\<lparr>adb_events := POLLIN, rx := version_cmd\<rparr>]) =
     Running
       \<lparr>control_ctx = True, local_agent_control_sock = 3, adb_connection_socket = 7,
        shutting_down = False, agent_loaded = True, agent_listening = True,
        agent_has_socket = False, sent_agent_fds = True, performed_handshake = True,
        notified_ddm_active = False, next_ddm_id = 1,
        trace = [WriteGuardLock, WriteGuardUnlock, SockRecv kJdwpHandshake,
                 SockSend kJdwpHandshake, AttachAgent,
                 AgentSendmsg kSkipHandshakeMessage (- 1),
                 AgentSendmsg kPerformHandshakeMessage 15]\<rparr>"
  by (simp add: agent_run_def from_agent_def run_defs)

subsection \<open>C8: releasing the debug socket\<close>

text \<open>
  Claim C8. \<^verbatim>\<open>CloseFds\<close> leaves \<open>adb_connection_socket\<close> at \<open>-1\<close> and
  \<open>performed_handshake\<close> false. What it does, in order: it takes the write guard,
  resets the socket, gives the guard back, and then calls \<^verbatim>\<open>DdmDisconnected\<close> exactly
  when the agent is not loaded and \<open>notified_ddm_active\<close> is set. In every state the
  poll loop reaches, that flag is set exactly when the last notification that went out
  was \<^verbatim>\<open>DdmConnected\<close>.
\<close>

theorem CloseFds_releases:
  "adb_connection_socket (CloseFds s) = - 1 \<and> \<not> performed_handshake (CloseFds s) \<and>
   new_effects s (CloseFds s) =
     [WriteGuardLock, SocketReset (adb_connection_socket s), WriteGuardUnlock]
     @ (if \<not> agent_loaded s \<and> notified_ddm_active s then [DdmDisconnected] else []) \<and>
   notified_ddm_active (state_of (RunPollLoop (initial fd) es))
     = ddm_active_after False (trace (state_of (RunPollLoop (initial fd) es)))"
  using ddm_inv_RunPollLoop [OF ddm_inv_initial, of fd es]
  by (simp add: CloseFds_fields new_effects_CloseFds ddm_inv_def)

text \<open>
  The theorem at a state that has notified the monitor, without and with the agent, and
  at one that has not.
\<close>

theorem CloseFds_releases_witness:
  "adb_connection_socket (CloseFds (handshaken\<lparr>notified_ddm_active := True\<rparr>)) = - 1
   \<and> new_effects (handshaken\<lparr>notified_ddm_active := True\<rparr>)
        (CloseFds (handshaken\<lparr>notified_ddm_active := True\<rparr>))
      = [WriteGuardLock, SocketReset 7, WriteGuardUnlock, DdmDisconnected]
   \<and> new_effects (agent_attached\<lparr>notified_ddm_active := True\<rparr>)
        (CloseFds (agent_attached\<lparr>notified_ddm_active := True\<rparr>))
      = [WriteGuardLock, SocketReset 7, WriteGuardUnlock]
   \<and> new_effects handshaken (CloseFds handshaken)
      = [WriteGuardLock, SocketReset 7, WriteGuardUnlock]
   \<and> \<not> notified_ddm_active (state_of (RunPollLoop (initial 3) connected_run))"
  using CloseFds_releases [of "handshaken\<lparr>notified_ddm_active := True\<rparr>" 3 connected_run]
    CloseFds_releases [of "agent_attached\<lparr>notified_ddm_active := True\<rparr>" 3 connected_run]
    CloseFds_releases [of handshaken 3 connected_run]
  by (simp add: handshaken_eq agent_attached_eq) (simp add: run_defs)

subsection \<open>C9: the monitor notifications\<close>

text \<open>
  Claim C9. Whatever the environment does, in the trace of \<^verbatim>\<open>RunPollLoop\<close> the calls
  of \<^verbatim>\<open>DdmConnected\<close> and \<^verbatim>\<open>DdmDisconnected\<close> alternate, starting with
  \<^verbatim>\<open>DdmConnected\<close>, and \<open>notified_ddm_active\<close> says which of the two came last, so
  that neither is called twice in a row. And in a pass of the loop, from whatever state:
  \<^verbatim>\<open>DdmConnected\<close> is called only with no agent loaded, the flag false and the handshake
  done, between taking a packet off the debug socket and handing its chunk to
  \<^verbatim>\<open>DdmHandleChunk\<close>; \<^verbatim>\<open>DdmDisconnected\<close> is called only with no agent loaded and the
  flag true, as the last step of closing the debug socket.
\<close>

theorem notifications_alternate:
  "ddm_alternates False (trace (state_of (RunPollLoop (initial fd) es)))
   \<and> notified_ddm_active (state_of (RunPollLoop (initial fd) es))
       = ddm_active_after False (trace (state_of (RunPollLoop (initial fd) es)))
   \<and> (DdmConnected \<in> set (new_effects s (state_of (RunPollLoop s [e]))) \<longrightarrow>
         \<not> agent_loaded s \<and> \<not> notified_ddm_active s \<and> performed_handshake s
         \<and> fired_on_packet (new_effects s (state_of (RunPollLoop s [e]))))
   \<and> (DdmDisconnected \<in> set (new_effects s (state_of (RunPollLoop s [e]))) \<longrightarrow>
         \<not> agent_loaded s \<and> notified_ddm_active s
         \<and> adb_connection_socket (state_of (RunPollLoop s [e])) = - 1
         \<and> fired_on_close (adb_connection_socket s)
              (new_effects s (state_of (RunPollLoop s [e]))))"
  using ddm_inv_RunPollLoop [OF ddm_inv_initial, of fd es] ddm_placed_pass [of s e]
  by (simp add: ddm_inv_def ddm_placed_def)


text \<open>
  The theorem at a run with both notifications (a client connects, shakes hands, sends
  a DDM chunk and hangs up), and at the two passes that send them.
\<close>

theorem notifications_alternate_witness:
  "ddm_notifications (trace (state_of (RunPollLoop (initial 3)
      (connected_run @
       [idle\<lparr>adb_events := POLLIN, rx := helo_chunk\<rparr>,
        idle\<lparr>adb_events := POLLRDHUP\<rparr>]))))
     = [DdmConnected, DdmDisconnected]
   \<and> ddm_alternates False (trace (state_of (RunPollLoop (initial 3)
      (connected_run @
       [idle\<lparr>adb_events := POLLIN, rx := helo_chunk\<rparr>,
        idle\<lparr>adb_events := POLLRDHUP\<rparr>]))))
   \<and> \<not> notified_ddm_active (state_of (RunPollLoop (initial 3)
      (connected_run @
       [idle\<lparr>adb_events := POLLIN, rx := helo_chunk\<rparr>,
        idle\<lparr>adb_events := POLLRDHUP\<rparr>])))
   \<and> new_effects handshaken
        (state_of (RunPollLoop handshaken [idle\<lparr>adb_events := POLLIN, rx := helo_chunk\<rparr>]))
       = [SockRecv helo_chunk, DdmConnected, DdmHandleChunk 0x48454C4F [0, 0, 0, 1]]
   \<and> \<not> agent_loaded handshaken \<and> \<not> notified_ddm_active handshaken
   \<and> fired_on_packet (new_effects handshaken
        (state_of (RunPollLoop handshaken [idle\<lparr>adb_events := POLLIN, rx := helo_chunk\<rparr>])))
   \<and> new_effects (handshaken\<lparr>notified_ddm_active := True\<rparr>)
        (state_of (RunPollLoop (handshaken\<lparr>notified_ddm_active := True\<rparr>)
           [idle\<lparr>adb_events := POLLRDHUP\<rparr>]))
       = [WriteGuardLock, SocketReset 7, WriteGuardUnlock, DdmDisconnected]
   \<and> fired_on_close 7 (new_effects (handshaken\<lparr>notified_ddm_active := True\<rparr>)
        (state_of (RunPollLoop (handshaken\<lparr>notified_ddm_active := True\<rparr>)
           [idle\<lparr>adb_events := POLLRDHUP\<rparr>])))"
  using notifications_alternate [of 3 "connected_run @
       [idle\<lparr>adb_events := POLLIN, rx := helo_chunk\<rparr>,
        idle\<lparr>adb_events := POLLRDHUP\<rparr>]" handshaken
       "idle\<lparr>adb_events := POLLIN, rx := helo_chunk\<rparr>"]
    notifications_alternate [of 3 "[]" "handshaken\<lparr>notified_ddm_active := True\<rparr>"
       "idle\<lparr>adb_events := POLLRDHUP\<rparr>"]
  by (simp add: handshaken_eq) (simp add: run_defs)

subsection \<open>C10: the terminator of the agent's message\<close>

text \<open>
  Claim C10 does not hold of the code. \<^verbatim>\<open>recv\<close> is asked for \<open>sizeof(buf) - 1 = 256\<close>
  bytes and the terminator is stored at index \<open>res + 1\<close>. When the agent control socket
  is readable and \<^verbatim>\<open>recv\<close> returns between 0 and 256, the store is outside the 257 bytes
  of \<^verbatim>\<open>buf\<close> exactly when \<^verbatim>\<open>recv\<close> returns 256: the index is then 257.
\<close>

theorem agent_control_read_terminator:
  assumes "0 \<le> poll_res e" and "FlagsSet (agent_control_sock_poll s e) POLLIN"
    and "IsDebuggingPossible e"
    and "0 \<le> agent_recv_res e" and "agent_recv_res e \<le> int agent_recv_len"
  shows "poll_iteration s e = OutOfBounds s (nat (agent_recv_res e + 1))
         \<longleftrightarrow> agent_recv_res e = int agent_recv_len"
  using assms unfolding poll_iteration_def Let_def
  by (auto simp add: agent_recv_len_def kBufSize_def SendAgentFds_def Let_def
      split: from_transport.split)

text \<open>The theorem at a message of 256 bytes.\<close>

theorem agent_control_read_terminator_witness:
  "0 \<le> poll_res ((from_agent kListenStartMessage)\<lparr>agent_recv_res := 256\<rparr>)
   \<and> FlagsSet (agent_control_sock_poll agent_attached
        ((from_agent kListenStartMessage)\<lparr>agent_recv_res := 256\<rparr>)) POLLIN
   \<and> IsDebuggingPossible ((from_agent kListenStartMessage)\<lparr>agent_recv_res := 256\<rparr>)
   \<and> agent_recv_res ((from_agent kListenStartMessage)\<lparr>agent_recv_res := 256\<rparr>)
        = int agent_recv_len
   \<and> poll_iteration agent_attached ((from_agent kListenStartMessage)\<lparr>agent_recv_res := 256\<rparr>)
        = OutOfBounds agent_attached 257
   \<and> kBufSize = 257"
  using agent_control_read_terminator [of "(from_agent kListenStartMessage)\<lparr>agent_recv_res := 256\<rparr>"
      agent_attached]
  by (simp add: agent_attached_eq from_agent_def idle_def agent_control_sock_poll_def
      poll_revents_def FlagsSet_def POLLIN_def agent_recv_len_def kBufSize_def)


end
